theory Spec2Isabelle
  imports Main "HOL-Library.Word"
begin

section \<open>JavaScript values\<close>

text \<open>
  The handlers of the repository work on JSON data: request bodies, data-store rows and
  the objects they build from them. A value is one of the JSON shapes plus
  \<open>undefined\<close>. A number is an integer from \<open>-2\<^sup>5\<^sup>3\<close> to \<open>2\<^sup>5\<^sup>3 - 1\<close>, read with
  \<open>sint\<close>: these are numbers that JavaScript holds exactly and prints in plain decimal
  notation. Numbers with a fraction and larger numbers are not values of this model. A
  string is a list of characters, one character standing for one code unit of the
  JavaScript string (code units up to 255), so \<open>length\<close> is the source's \<open>.length\<close>. An
  object is the list of its own properties with unique keys, as \<open>JSON.parse\<close> delivers
  it.
\<close>

datatype jsval =
    JUndefined
  | JNull
  | JBool bool
  | JNum "54 word"
  | JStr string
  | JArr "jsval list"
  | JObj "(string \<times> jsval) list"

text \<open>A thrown error; only its message is ever inspected by the code.\<close>

datatype js_error =
    Error (message: string)
  | TypeError (message: string)

text \<open>Truthiness, as tested by \<open>!x\<close>, \<open>x ? a : b\<close>, \<open>x && y\<close> and \<open>x || y\<close>.\<close>

fun truthy :: "jsval \<Rightarrow> bool" where
  "truthy JUndefined = False"
| "truthy JNull = False"
| "truthy (JBool b) = b"
| "truthy (JNum n) = (n \<noteq> 0)"
| "truthy (JStr s) = (s \<noteq> [])"
| "truthy (JArr xs) = True"
| "truthy (JObj kvs) = True"

fun nullish :: "jsval \<Rightarrow> bool" where
  "nullish JUndefined = True"
| "nullish JNull = True"
| "nullish v = False"

text \<open>\<open>a || b\<close>\<close>

definition js_or :: "jsval \<Rightarrow> jsval \<Rightarrow> jsval" where
  "js_or a b = (if truthy a then a else b)"

text \<open>
  Property read \<open>v.k\<close> on a value that is neither \<open>null\<close> nor \<open>undefined\<close> (the callers
  below write out the TypeError of the other case), for the keys that the handlers read
  by name on bodies, rows and results: \<open>type\<close>, \<open>record\<close>, \<open>status\<close>, \<open>title\<close>,
  \<open>weight\<close> and the like. These are own properties of objects and are undefined on
  strings, arrays, numbers and booleans. The one other read, \<open>description.length\<close>, is
  \<open>length_exceeds\<close> below.
\<close>

fun js_get :: "jsval \<Rightarrow> string \<Rightarrow> jsval" where
  "js_get (JObj kvs) k = (case map_of kvs k of Some v \<Rightarrow> v | None \<Rightarrow> JUndefined)"
| "js_get v k = JUndefined"

text \<open>Optional chaining \<open>v?.k\<close>.\<close>

definition js_get_opt :: "jsval \<Rightarrow> string \<Rightarrow> jsval" where
  "js_get_opt v k = (if nullish v then JUndefined else js_get v k)"

subsection \<open>Conversion to string\<close>

definition digit_char :: "nat \<Rightarrow> char" where
  "digit_char d = ''0123456789'' ! d"

function show_nat :: "nat \<Rightarrow> string" where
  "show_nat n = (if n < 10 then [digit_char n] else show_nat (n div 10) @ [digit_char (n mod 10)])"
  by pat_completeness auto
termination
  by (relation "measure id") auto

declare show_nat.simps [simp del]

definition show_int :: "int \<Rightarrow> string" where
  "show_int i = (if i < 0 then ''-'' @ show_nat (nat (- i)) else show_nat (nat i))"

fun join_comma :: "string list \<Rightarrow> string" where
  "join_comma [] = []"
| "join_comma [s] = s"
| "join_comma (s # t # ss) = s @ '','' @ join_comma (t # ss)"

text \<open>
  The conversion of a value to a string, as a template literal \<open>`${v}`\<close> and
  \<open>v + 'text'\<close> make it; \<open>None\<close> is the TypeError
  \<open>Cannot convert object to primitive value\<close>. An object converts to
  \<open>[object Object]\<close>, unless it has a property \<open>toString\<close> of its own: a value from
  JSON is never a function, so that property hides the method of the prototype and the
  conversion fails. An array converts to the comma-joined conversions of its elements
  (empty for \<open>null\<close> and \<open>undefined\<close> elements) and fails when one of them fails.
\<close>

fun to_string :: "jsval \<Rightarrow> string option" where
  "to_string JUndefined = Some ''undefined''"
| "to_string JNull = Some ''null''"
| "to_string (JBool b) = Some (if b then ''true'' else ''false'')"
| "to_string (JNum n) = Some (show_int (sint n))"
| "to_string (JStr s) = Some s"
| "to_string (JArr xs) =
     map_option join_comma (those (map (\<lambda>x. if nullish x then Some [] else to_string x) xs))"
| "to_string (JObj kvs) = (if ''toString'' \<in> fst ` set kvs then None else Some ''[object Object]'')"

definition convert_error :: js_error where
  "convert_error = TypeError ''Cannot convert object to primitive value''"

text \<open>A template literal \<open>`${v}`\<close> as a step that may throw.\<close>

definition template :: "jsval \<Rightarrow> js_error + string" where
  "template v = (case to_string v of None \<Rightarrow> Inl convert_error | Some s \<Rightarrow> Inr s)"

subsection \<open>String operations\<close>

text \<open>\<open>s.includes(sub)\<close>\<close>

fun starts_with :: "string \<Rightarrow> string \<Rightarrow> bool" where
  "starts_with s [] = True"
| "starts_with [] (c # cs) = False"
| "starts_with (d # ds) (c # cs) = (d = c \<and> starts_with ds cs)"

fun str_includes :: "string \<Rightarrow> string \<Rightarrow> bool" where
  "str_includes [] sub = (sub = [])"
| "str_includes (c # cs) sub = (starts_with (c # cs) sub \<or> str_includes cs sub)"

text \<open>\<open>s.replace(/<[^>]*>/g, '')\<close>: every stretch from a \<open><\<close> to the next \<open>>\<close> is removed;
  a \<open><\<close> with no \<open>>\<close> after it stays, and so does everything behind it.\<close>

function strip_tags :: "string \<Rightarrow> string" where
  "strip_tags [] = []"
| "strip_tags (c # cs) =
     (if c = CHR ''<'' then
        (case dropWhile (\<lambda>d. d \<noteq> CHR ''>'') cs of
           [] \<Rightarrow> c # cs
         | d # rest \<Rightarrow> strip_tags rest)
      else c # strip_tags cs)"
  by pat_completeness auto
termination
proof (relation "measure length")
  fix c :: char and cs x21 x22
  assume "dropWhile (\<lambda>d. d \<noteq> CHR ''>'') cs = x21 # x22"
  moreover have "length (dropWhile (\<lambda>d. d \<noteq> CHR ''>'') cs) \<le> length cs"
    by (rule length_dropWhile_le)
  ultimately show "(x22, c # cs) \<in> measure length" by simp
qed auto

text \<open>\<open>s.trim()\<close>: white space and line terminators are removed at both ends.\<close>

definition is_space :: "char \<Rightarrow> bool" where
  "is_space c = (c \<in> set [CHR 0x09, CHR 0x0A, CHR 0x0B, CHR 0x0C, CHR 0x0D, CHR 0x20, CHR 0xA0])"

definition trim :: "string \<Rightarrow> string" where
  "trim s = rev (dropWhile is_space (rev (dropWhile is_space s)))"

text \<open>\<open>s.toLowerCase()\<close>: the capitals A to Z and the capitals of the upper half of the
  code units (0xC0 to 0xDE, the multiplication sign 0xD7 left out) go to their small
  letters, 32 code units up.\<close>

definition capitals :: string where
  "capitals = ''ABCDEFGHIJKLMNOPQRSTUVWXYZ''
     @ [CHR 0xC0, CHR 0xC1, CHR 0xC2, CHR 0xC3, CHR 0xC4, CHR 0xC5, CHR 0xC6, CHR 0xC7,
        CHR 0xC8, CHR 0xC9, CHR 0xCA, CHR 0xCB, CHR 0xCC, CHR 0xCD, CHR 0xCE, CHR 0xCF,
        CHR 0xD0, CHR 0xD1, CHR 0xD2, CHR 0xD3, CHR 0xD4, CHR 0xD5, CHR 0xD6,
        CHR 0xD8, CHR 0xD9, CHR 0xDA, CHR 0xDB, CHR 0xDC, CHR 0xDD, CHR 0xDE]"

definition small_letters :: string where
  "small_letters = ''abcdefghijklmnopqrstuvwxyz''
     @ [CHR 0xE0, CHR 0xE1, CHR 0xE2, CHR 0xE3, CHR 0xE4, CHR 0xE5, CHR 0xE6, CHR 0xE7,
        CHR 0xE8, CHR 0xE9, CHR 0xEA, CHR 0xEB, CHR 0xEC, CHR 0xED, CHR 0xEE, CHR 0xEF,
        CHR 0xF0, CHR 0xF1, CHR 0xF2, CHR 0xF3, CHR 0xF4, CHR 0xF5, CHR 0xF6,
        CHR 0xF8, CHR 0xF9, CHR 0xFA, CHR 0xFB, CHR 0xFC, CHR 0xFD, CHR 0xFE]"

definition lower_char :: "char \<Rightarrow> char" where
  "lower_char c = (case map_of (zip capitals small_letters) c of Some l \<Rightarrow> l | None \<Rightarrow> c)"

definition toLowerCase :: "string \<Rightarrow> string" where
  "toLowerCase s = map lower_char s"

subsection \<open>Comparison with a number\<close>

text \<open>
  \<open>v > n\<close> with a number on the right converts \<open>v\<close> to a number first. \<open>undefined\<close>
  converts to \<open>NaN\<close>, which compares false, \<open>null\<close> to 0, a boolean to 0 or 1. An
  array or object is converted to a string first, which may throw (\<open>None\<close>). The
  conversion of a string to a number is floating-point arithmetic and is taken as
  given: \<open>exceeds s n\<close> says whether the number that \<open>s\<close> converts to is greater than
  \<open>n\<close>.
\<close>

fun js_gt :: "(string \<Rightarrow> int \<Rightarrow> bool) \<Rightarrow> jsval \<Rightarrow> int \<Rightarrow> bool option" where
  "js_gt exceeds JUndefined n = Some False"
| "js_gt exceeds JNull n = Some (n < 0)"
| "js_gt exceeds (JBool b) n = Some (n < (if b then 1 else 0))"
| "js_gt exceeds (JNum k) n = Some (n < sint k)"
| "js_gt exceeds (JStr s) n = Some (exceeds s n)"
| "js_gt exceeds v n = map_option (\<lambda>s. exceeds s n) (to_string v)"

text \<open>\<open>v.length > n\<close> for a truthy \<open>v\<close>: strings and arrays have their length, an object
  has the property it carries under that name, numbers and booleans have none.\<close>

fun length_exceeds :: "(string \<Rightarrow> int \<Rightarrow> bool) \<Rightarrow> jsval \<Rightarrow> nat \<Rightarrow> bool option" where
  "length_exceeds exceeds (JStr s) n = Some (n < length s)"
| "length_exceeds exceeds (JArr xs) n = Some (n < length xs)"
| "length_exceeds exceeds (JObj kvs) n = js_gt exceeds (js_get (JObj kvs) ''length'') (int n)"
| "length_exceeds exceeds v n = Some False"

section \<open>Effects and responses\<close>

text \<open>
  The calls a handler makes to its collaborators (cookie store, data store, text
  generation, rendering engine, file system, object storage) are recorded in order.
  Console logging is not recorded, but the template literals of the log lines are
  evaluated, since their conversions may throw.
\<close>

datatype effect =
    CookieStore
  | CreateClient
  | SelectProfile jsval
  | SelectListing jsval
  | GenerateContent string
  | Bundle
  | SelectComposition jsval
  | RenderMedia string jsval
  | ReadFile string
  | Upload string
  | GetPublicUrl string
  | UpdateListing jsval jsval
  | Unlink string

record response =
  status :: nat
  json :: jsval

text \<open>A computation ends in an error or a value, after the calls it has made.\<close>

type_synonym 'a outcome = "(js_error + 'a) \<times> effect list"

definition returns :: "'a \<Rightarrow> 'a outcome" where
  "returns x = (Inr x, [])"

definition throws :: "js_error \<Rightarrow> 'a outcome" where
  "throws e = (Inl e, [])"

text \<open>A step that makes no call, and a call to a collaborator with its result.\<close>

definition internal :: "js_error + 'a \<Rightarrow> 'a outcome" where
  "internal r = (r, [])"

definition external :: "effect \<Rightarrow> js_error + 'a \<Rightarrow> 'a outcome" where
  "external c r = (r, [c])"

text \<open>One statement after the other; an error ends the sequence.\<close>

definition and_then :: "'a outcome \<Rightarrow> ('a \<Rightarrow> 'b outcome) \<Rightarrow> 'b outcome" where
  "and_then m f =
     (case m of
        (Inl e, calls) \<Rightarrow> (Inl e, calls)
      | (Inr x, calls) \<Rightarrow> (case f x of (r, calls2) \<Rightarrow> (r, calls @ calls2)))"

text \<open>The same for steps without calls.\<close>

definition on_value :: "js_error + 'a \<Rightarrow> ('a \<Rightarrow> js_error + 'b) \<Rightarrow> js_error + 'b" where
  "on_value r f = (case r of Inl e \<Rightarrow> Inl e | Inr x \<Rightarrow> f x)"

text \<open>The message of the TypeError raised by V8 for \<open>v.k\<close> with \<open>v\<close> null or undefined.\<close>

definition cannot_read :: "jsval \<Rightarrow> string \<Rightarrow> string" where
  "cannot_read v k =
     ''Cannot read properties of '' @ (if v = JNull then ''null'' else ''undefined'')
     @ '' (reading '' @ [CHR 0x27] @ k @ [CHR 0x27] @ '')''"

section \<open>The webhook entry point (webhook/route.js)\<close>

text \<open>
  What the handler receives from outside: the parsed request body, the results of the
  two calls each to \<open>cookies()\<close> and \<open>createRouteHandlerClient\<close>, the result
  \<open>(data, error)\<close> of the profile query, the configured application URL
  (\<open>process.env.NEXT_PUBLIC_APP_URL\<close>, a string when set), the clock, and the
  conversion of strings to numbers. A call that throws is \<open>Inl\<close>.
\<close>

record webhook_env =
  req_json :: "js_error + jsval"
  cookies1 :: "js_error + unit"
  client1 :: "js_error + unit"
  profile_query :: "js_error + jsval \<times> jsval"
  cookies2 :: "js_error + unit"
  client2 :: "js_error + unit"
  app_url :: "string option"
  date_now :: nat
  string_exceeds :: "string \<Rightarrow> int \<Rightarrow> bool"

definition validateWebhookPayload :: "jsval \<Rightarrow> js_error + bool" where
  "validateWebhookPayload body =
     (if nullish body then Inl (TypeError (cannot_read body ''type''))
      else if \<not> truthy (js_get body ''type'') \<or> js_get body ''type'' \<noteq> JStr ''INSERT''
        then Inl (Error ''Invalid webhook type - only INSERT events are supported'')
      else if \<not> truthy (js_get body ''table'') \<or> js_get body ''table'' \<noteq> JStr ''listings''
        then Inl (Error ''Invalid table - only listings table is supported'')
      else if \<not> truthy (js_get body ''record'')
        then Inl (Error ''Missing record data in webhook payload'')
      else
        let record = js_get body ''record'' in
        if js_get record ''status'' \<noteq> JStr ''active''
          then on_value (template (js_get record ''status''))
                 (\<lambda>shown. Inl (Error (''Listing status '' @ [CHR 0x27] @ shown @ [CHR 0x27]
                                       @ '' not active - skipping video generation'')))
        else if \<not> truthy (js_get record ''id'') then Inl (Error ''Missing listing ID'')
        else if \<not> truthy (js_get record ''title'') then Inl (Error ''Missing listing title'')
        else if \<not> truthy (js_get record ''user_id'') then Inl (Error ''Missing user ID'')
        else Inr True)"

text \<open>The body of the \<open>try\<close> of \<open>generateListingDescription\<close>.\<close>

definition generateListingDescription_try ::
    "(string \<Rightarrow> int \<Rightarrow> bool) \<Rightarrow> jsval \<Rightarrow> js_error + string" where
  "generateListingDescription_try exceeds listing =
     (if nullish listing then Inl (TypeError (cannot_read listing ''description''))
      else
        let description = js_get listing ''description'' in
        case (if truthy description then length_exceeds exceeds description 10 else Some False) of
          None \<Rightarrow> Inl convert_error
        | Some True \<Rightarrow>
           (case description of
              JStr s \<Rightarrow>
                (let plainText = strip_tags s in
                 if length plainText > 150 then Inr (take 147 plainText @ ''...'')
                 else Inr plainText)
            | _ \<Rightarrow> Inl (TypeError ''listing.description.replace is not a function''))
        | Some False \<Rightarrow>
           on_value (template (js_or (js_get listing ''tier1_category'') (JStr ''precious metal'')))
             (\<lambda>category. Inr (''Discover this exquisite '' @ category @ '' item. Quality guaranteed.'')))"

definition generateListingDescription :: "(string \<Rightarrow> int \<Rightarrow> bool) \<Rightarrow> jsval \<Rightarrow> string" where
  "generateListingDescription exceeds listing =
     (case generateListingDescription_try exceeds listing of
        Inr text \<Rightarrow> text
      | Inl error \<Rightarrow> ''Premium precious metal item available now.'')"

text \<open>The object literal \<open>videoData\<close> of \<open>generateVideoReel\<close>, for a listing that is
  there; the template of the weight may throw, and so does the read of the seller's
  name when there is no seller.\<close>

definition videoData :: "webhook_env \<Rightarrow> jsval \<Rightarrow> jsval \<Rightarrow> js_error + jsval" where
  "videoData env listing sellerProfile =
     on_value (if truthy (js_get listing ''weight'')
               then on_value (template (js_get listing ''weight'')) (\<lambda>shown. Inr (JStr (shown @ '' oz'')))
               else Inr JUndefined)
       (\<lambda>weight.
          if nullish sellerProfile then Inl (TypeError (cannot_read sellerProfile ''full_name''))
          else Inr (JObj [
            (''listingTitle'', js_or (js_get listing ''title'') (JStr ''New Listing'')),
            (''listingDescription'', JStr (generateListingDescription (string_exceeds env) listing)),
            (''images'', js_or (js_get listing ''images'') (JArr [])),
            (''specifications'', JObj [
               (''category'', js_or (js_get listing ''tier1_category'') (js_get listing ''tier2_category'')),
               (''condition'', js_get listing ''condition''),
               (''weight'', weight),
               (''purity'', js_get listing ''purity''),
               (''year'', js_get listing ''year'')]),
            (''sellerName'', js_or (js_get sellerProfile ''full_name'') (js_get sellerProfile ''username'')),
            (''logoUrl'', case app_url env of
                            None \<Rightarrow> JStr ''https://peermetals.com/peermetals.png''
                          | Some url \<Rightarrow>
                              if url \<noteq> [] then JStr (url @ ''/peermetals.png'')
                              else JStr ''https://peermetals.com/peermetals.png'')]))"

text \<open>The body of the \<open>try\<close> of \<open>generateVideoReel\<close>, for a listing that is there.\<close>

definition generateVideoReel_try :: "webhook_env \<Rightarrow> jsval \<Rightarrow> jsval \<Rightarrow> jsval outcome" where
  "generateVideoReel_try env listing sellerProfile =
     and_then (internal (template (js_get listing ''title''))) (\<lambda>logged.
     and_then (internal (videoData env listing sellerProfile)) (\<lambda>data.
     and_then (external CookieStore (cookies2 env)) (\<lambda>cookieStore.
     and_then (external CreateClient (client2 env)) (\<lambda>supabase.
     and_then (internal (template (js_get listing ''id''))) (\<lambda>id.
       let videoFileName = ''listing-'' @ id @ ''-'' @ show_nat (date_now env) @ ''.mp4'';
           videoPath = ''video-reels/'' @ videoFileName
       in returns (JObj [
            (''success'', JBool True),
            (''videoPath'', JStr videoPath),
            (''videoData'', data),
            (''message'', JStr ''Video generation queued successfully'')]))))))"

text \<open>
  \<open>generateVideoReel\<close>: an error inside its \<open>try\<close> is logged and turned into the result
  \<open>null\<close>. Its \<open>catch\<close> reads \<open>listing.id\<close>, which throws again when there is no
  listing.
\<close>

definition generateVideoReel :: "webhook_env \<Rightarrow> jsval \<Rightarrow> jsval \<Rightarrow> jsval outcome" where
  "generateVideoReel env listing sellerProfile =
     (if nullish listing then throws (TypeError (cannot_read listing ''id''))
      else
        case generateVideoReel_try env listing sellerProfile of
          (Inr result, calls) \<Rightarrow> (Inr result, calls)
        | (Inl error, calls) \<Rightarrow> (Inr JNull, calls))"

definition fallback_profile :: jsval where
  "fallback_profile =
     JObj [(''username'', JStr ''peermetals_seller''),
           (''full_name'', JStr ''PeerMetals Seller''),
           (''avatar_url'', JNull),
           (''reputation'', JNum 0),
           (''is_verified'', JBool False)]"

text \<open>Lines 147 to 176 of \<open>POST\<close>: the payload, its validation, the seller's profile;
  the result is the listing and the seller.\<close>

definition POST_prepare :: "webhook_env \<Rightarrow> (jsval \<times> jsval) outcome" where
  "POST_prepare env =
     and_then (internal (req_json env)) (\<lambda>payload.
     and_then (internal (validateWebhookPayload payload)) (\<lambda>valid.
       let listing = js_get payload ''record'' in
     and_then (external CookieStore (cookies1 env)) (\<lambda>cookieStore.
     and_then (external CreateClient (client1 env)) (\<lambda>supabase.
     and_then (external (SelectProfile (js_get listing ''user_id'')) (profile_query env))
       (\<lambda>(sellerProfile, profileError).
     and_then (if truthy profileError \<or> \<not> truthy sellerProfile
               then and_then (internal (template (js_get_opt profileError ''message'')))
                      (\<lambda>logged. returns fallback_profile)
               else returns sellerProfile) (\<lambda>seller.
     and_then (internal (template (js_get listing ''title''))) (\<lambda>logged.
     and_then (internal (template (js_or (js_get seller ''full_name'') (js_get seller ''username''))))
       (\<lambda>logged. returns (listing, seller)))))))))"

text \<open>The body of the \<open>try\<close> of \<open>POST\<close>: these lines, then the video reel.\<close>

definition POST_try :: "webhook_env \<Rightarrow> response outcome" where
  "POST_try env =
     and_then (POST_prepare env) (\<lambda>(listing, seller).
     and_then (generateVideoReel env listing seller) (\<lambda>videoResult.
       if \<not> truthy videoResult then throws (Error ''Failed to generate video reel'')
       else returns
         \<lparr>status = 200,
          json = JObj [
            (''success'', JBool True),
            (''message'', JStr ''Video reel generation queued successfully''),
            (''listingId'', js_get listing ''id''),
            (''videoPath'', js_get videoResult ''videoPath''),
            (''videoData'', js_get videoResult ''videoData'')]\<rparr>))"

text \<open>The \<open>catch\<close> of \<open>POST\<close>.\<close>

definition POST_catch :: "js_error \<Rightarrow> response" where
  "POST_catch error =
     (if str_includes (message error) ''not active''
         \<or> str_includes (message error) ''only INSERT events''
         \<or> str_includes (message error) ''only listings table''
      then \<lparr>status = 200,
            json = JObj [(''success'', JBool True),
                         (''message'', JStr ''Webhook skipped''),
                         (''reason'', JStr (message error))]\<rparr>
      else \<lparr>status = (if str_includes (message error) ''Missing'' then 400 else 500),
            json = JObj [(''success'', JBool False),
                         (''error'', JStr (message error))]\<rparr>)"

definition POST :: "webhook_env \<Rightarrow> response \<times> effect list" where
  "POST env =
     (case POST_try env of
        (Inr res, calls) \<Rightarrow> (res, calls)
      | (Inl error, calls) \<Rightarrow> (POST_catch error, calls))"

section \<open>The description generator (src/utils/generateDescription.js)\<close>

text \<open>\<open>category.toLowerCase()\<close> for a category that is truthy: a string has the method,
  no other value has.\<close>

definition lower_category :: "jsval \<Rightarrow> js_error + string" where
  "lower_category category =
     (case category of
        JStr c \<Rightarrow> Inr (toLowerCase c)
      | _ \<Rightarrow> Inl (TypeError ''category.toLowerCase is not a function''))"

text \<open>The ending of every template: \<open>condition ? condition + ' condition.' : dflt\<close>.\<close>

definition condition_sentence :: "jsval \<Rightarrow> string \<Rightarrow> js_error + string" where
  "condition_sentence condition dflt =
     (if truthy condition
      then on_value (template condition) (\<lambda>shown. Inr (shown @ '' condition.''))
      else Inr dflt)"

text \<open>The four templates, each evaluated from left to right.\<close>

definition generateFallbackDescription :: "jsval \<Rightarrow> js_error + string" where
  "generateFallbackDescription listing =
     (if nullish listing
      then Inl (TypeError (''Cannot destructure property 'title' of 'listing' as it is ''
                           @ (if listing = JNull then ''null'' else ''undefined'') @ ''.''))
      else
        let specifications = js_get listing ''specifications'';
            category = js_or (js_get_opt specifications ''category'') (JStr ''precious metal'');
            condition = js_or (js_get_opt specifications ''condition'') (JStr '''');
            purity = js_or (js_get_opt specifications ''purity'') (JStr '''');
            year = js_or (js_get_opt specifications ''year'') (JStr '''')
        in on_value
             (if truthy purity \<and> truthy year then
                on_value (template purity) (\<lambda>p.
                on_value (lower_category category) (\<lambda>c.
                on_value (template year) (\<lambda>y.
                on_value (condition_sentence condition ''Exceptional quality.'') (\<lambda>ending.
                  Inr (p @ '' purity '' @ c @ '' from '' @ y @ ''. '' @ ending)))))
              else if truthy purity then
                on_value (template purity) (\<lambda>p.
                on_value (lower_category category) (\<lambda>c.
                on_value (condition_sentence condition ''Investment grade.'') (\<lambda>ending.
                  Inr (''Premium '' @ p @ '' purity '' @ c @ ''. '' @ ending))))
              else if truthy year then
                on_value (lower_category category) (\<lambda>c.
                on_value (template year) (\<lambda>y.
                on_value (condition_sentence condition ''Excellent specimen.'') (\<lambda>ending.
                  Inr (''Collectible '' @ c @ '' from '' @ y @ ''. '' @ ending))))
              else
                on_value (lower_category category) (\<lambda>c.
                on_value (condition_sentence condition ''Quality guaranteed.'') (\<lambda>ending.
                  Inr (''Beautiful '' @ c @ '' piece. '' @ ending))))
             (\<lambda>description.
                if length description > 120 then Inr (take 117 description @ ''...'')
                else Inr description))"

definition generateFallbackDetailed :: "jsval \<Rightarrow> js_error + string" where
  "generateFallbackDetailed listing =
     (if nullish listing then Inl (TypeError (cannot_read listing ''specifications''))
      else
        on_value (lower_category (js_or (js_get_opt (js_get listing ''specifications'') ''category'')
                                        (JStr ''precious metal'')))
          (\<lambda>c. Inr (''Discover this exceptional '' @ c @ '' piece.'')))"

text \<open>\<open>s.replace(/^["']|["']$/g, '')\<close>: a quote character at the start is removed, and
  a quote character at the end of what is left is removed.\<close>

definition is_quote :: "char \<Rightarrow> bool" where
  "is_quote c = (c = CHR 0x22 \<or> c = CHR 0x27)"

definition strip_quotes :: "string \<Rightarrow> string" where
  "strip_quotes s =
     (let t = (case s of [] \<Rightarrow> s | c # cs \<Rightarrow> if is_quote c then cs else s)
      in if t \<noteq> [] \<and> is_quote (last t) then butlast t else t)"

text \<open>
  The context block of the prompt of \<open>generateDetailedDescription\<close>; the request to the
  service is recorded with it (the instructions around it are fixed text). The templates
  of the title and of the category may throw.
\<close>

definition detailed_context :: "jsval \<Rightarrow> string \<Rightarrow> js_error + string" where
  "detailed_context listing plainDescription =
     on_value (template (js_get listing ''title'')) (\<lambda>title.
     on_value (template (js_or (js_get_opt (js_get listing ''specifications'') ''category'')
                               (JStr ''Precious Metal''))) (\<lambda>category.
       Inr (trim ([CHR 0x0A] @ ''Product: '' @ title @ [CHR 0x0A]
                  @ ''Category: '' @ category @ [CHR 0x0A]
                  @ ''Details: ''
                  @ (if plainDescription \<noteq> [] then plainDescription
                     else ''Quality precious metal item'')
                  @ [CHR 0x0A]))))"

text \<open>\<open>listing.description ? listing.description.replace(...).trim() : ''\<close>\<close>

definition plain_description :: "jsval \<Rightarrow> js_error + string" where
  "plain_description listing =
     (if truthy (js_get listing ''description'')
      then (case js_get listing ''description'' of
              JStr s \<Rightarrow> Inr (trim (strip_tags s))
            | _ \<Rightarrow> Inl (TypeError ''listing.description.replace is not a function''))
      else Inr [])"

text \<open>
  The body of the \<open>try\<close> of \<open>generateDetailedDescription\<close>. \<open>key\<close> is
  \<open>process.env.NEXT_PUBLIC_GEMINI_API_KEY\<close>; \<open>service\<close> is what the request to the
  text-generation service yields: the text of the response, or the error thrown on the
  way to it.
\<close>

definition generateDetailedDescription_try ::
    "jsval \<Rightarrow> js_error + string \<Rightarrow> jsval \<Rightarrow> string outcome" where
  "generateDetailedDescription_try key service listing =
     (if \<not> truthy key then internal (generateFallbackDetailed listing)
      else if nullish listing then throws (TypeError (cannot_read listing ''description''))
      else
        and_then (internal (plain_description listing)) (\<lambda>plainDescription.
        and_then (internal (detailed_context listing plainDescription)) (\<lambda>context.
        and_then (external (GenerateContent context) service) (\<lambda>text.
          let description = strip_quotes (trim text) in
          if length description > 80 then returns (take 77 description @ ''...'')
          else returns description))))"

definition generateDetailedDescription ::
    "jsval \<Rightarrow> js_error + string \<Rightarrow> jsval \<Rightarrow> string outcome" where
  "generateDetailedDescription key service listing =
     (case generateDetailedDescription_try key service listing of
        (Inr text, calls) \<Rightarrow> (Inr text, calls)
      | (Inl error, calls) \<Rightarrow> (generateFallbackDetailed listing, calls))"

section \<open>The render endpoint (api/render-video.js)\<close>

text \<open>
  What the handler receives from outside: the request, the results of its calls to the
  data store, the text-generation service, the rendering engine, the file system and the
  object storage, the configuration and the clock. \<open>toFixed2\<close> stands for
  \<open>(ms / 1000).toFixed(2)\<close>, a floating-point rendering that is taken as given.
  \<open>public_url\<close> is the URL string that the storage client returns.
  \<open>next_public_app_url\<close> is \<open>process.env.NEXT_PUBLIC_APP_URL\<close>.
\<close>

record render_env =
  req_method :: jsval
  req_body :: jsval
  listing_query :: "jsval \<times> jsval"
  seller_query :: jsval
  gemini_key :: jsval
  text_service :: "js_error + string"
  bundle_result :: "js_error + unit"
  composition_result :: "js_error + unit"
  render_result :: "js_error + unit"
  read_result :: "js_error + unit"
  upload_error :: jsval
  public_url :: string
  update_error :: jsval
  unlink_result :: "js_error + unit"
  start_time :: nat
  file_time :: nat
  end_time :: nat
  toFixed2 :: "int \<Rightarrow> string"
  node_env :: jsval
  error_stack :: string
  next_public_app_url :: jsval

definition totalTime :: "render_env \<Rightarrow> string" where
  "totalTime env = toFixed2 env (int (end_time env) - int (start_time env))"

definition bad_request :: response where
  "bad_request =
     \<lparr>status = 400,
      json = JObj [(''error'', JStr ''Missing required parameter: listingId or listingData'')]\<rparr>"

text \<open>Lines 39 to 63: the request body and the listing; an early response is \<open>Inl res\<close>, the
  listing is \<open>Inr listing\<close>. The id is printed to the log before the store is asked.\<close>

definition resolve_listing :: "render_env \<Rightarrow> (response + jsval) outcome" where
  "resolve_listing env =
     (if nullish (req_body env)
      then throws (TypeError (''Cannot destructure property 'listingId' of 'req.body' as it is ''
                              @ (if req_body env = JNull then ''null'' else ''undefined'') @ ''.''))
      else
        let listingId = js_get (req_body env) ''listingId'';
            listingData = js_get (req_body env) ''listingData''
        in if \<not> truthy listingId \<and> \<not> truthy listingData then returns (Inl bad_request)
           else if truthy listingId \<and> \<not> truthy listingData then
             and_then (internal (template listingId)) (\<lambda>logged.
             and_then (external (SelectListing listingId) (Inr (listing_query env))) (\<lambda>(data, error).
               if truthy error \<or> \<not> truthy data
               then and_then (internal (template (js_get_opt error ''message'')))
                      (\<lambda>reason. throws (Error (''Failed to fetch listing: '' @ reason)))
               else returns (Inr data)))
           else returns (Inr listingData))"

text \<open>The object literal \<open>videoInputProps\<close>, for a listing and a seller that are there;
  the template of the weight may throw.\<close>

definition videoInputProps :: "jsval \<Rightarrow> jsval \<Rightarrow> string \<Rightarrow> js_error + jsval" where
  "videoInputProps listing seller aiDescription =
     on_value (if truthy (js_get listing ''weight'')
               then on_value (template (js_get listing ''weight'')) (\<lambda>shown. Inr (JStr (shown @ '' oz'')))
               else Inr JUndefined)
       (\<lambda>weight.
          Inr (JObj [
            (''listingTitle'', js_get listing ''title''),
            (''listingDescription'', JStr aiDescription),
            (''images'', js_or (js_get listing ''images'') (JArr [])),
            (''specifications'', JObj [
               (''category'', js_or (js_get listing ''tier1_category'') (js_get listing ''tier2_category'')),
               (''condition'', js_get listing ''condition''),
               (''weight'', weight),
               (''purity'', js_get listing ''purity''),
               (''year'', js_get listing ''year'')]),
            (''sellerName'', js_or (js_get seller ''full_name'') (js_get seller ''username'')),
            (''logoUrl'', JStr ''https://peermetals.com/peermetals.png'')]))"

text \<open>Lines 65 to 106: seller profile, description, input properties. The owner's id is
  printed to the log before the profile is asked for.\<close>

definition prepare :: "render_env \<Rightarrow> jsval \<Rightarrow> jsval outcome" where
  "prepare env listing =
     and_then (internal (template (js_get listing ''user_id''))) (\<lambda>logged.
     and_then (external (SelectProfile (js_get listing ''user_id'')) (Inr (seller_query env)))
       (\<lambda>sellerProfile.
       let seller = js_or sellerProfile
                      (JObj [(''username'', JStr ''peermetals_seller''),
                             (''full_name'', JStr ''PeerMetals Seller'')])
       in
     and_then (generateDetailedDescription (gemini_key env) (text_service env)
                 (JObj [(''title'', js_get listing ''title''),
                        (''description'', js_get listing ''description''),
                        (''specifications'', JObj [
                           (''category'', js_or (js_get listing ''tier1_category'')
                                                (js_get listing ''tier2_category'')),
                           (''condition'', js_get listing ''condition''),
                           (''weight'', js_get listing ''weight''),
                           (''purity'', js_get listing ''purity''),
                           (''year'', js_get listing ''year'')])])) (\<lambda>aiDescription.
       internal (videoInputProps listing seller aiDescription))))"

text \<open>The path of the output file (\<open>path.join('/tmp', outputFileName)\<close>, for a file name
  without path separators).\<close>

definition outputPath :: "string \<Rightarrow> string" where
  "outputPath outputFileName = ''/tmp/'' @ outputFileName"

text \<open>Lines 108 to 152: bundling, composition, the name of the output file (whose
  template over the listing's id may throw), rendering. The result is the file name.\<close>

definition render :: "render_env \<Rightarrow> jsval \<Rightarrow> jsval \<Rightarrow> string outcome" where
  "render env listing props =
     and_then (external Bundle (bundle_result env)) (\<lambda>bundleLocation.
     and_then (external (SelectComposition props) (composition_result env)) (\<lambda>composition.
     and_then (internal (template (js_get listing ''id''))) (\<lambda>id.
       let outputFileName = ''listing-'' @ id @ ''-'' @ show_nat (file_time env) @ ''.mp4'' in
     and_then (external (RenderMedia (outputPath outputFileName) props) (render_result env))
       (\<lambda>rendered. returns outputFileName))))"

text \<open>
  Lines 154 to 199, the publish step: read the file, upload it, get the public URL,
  update the listing (a failure of the update is only logged), delete the file, respond.
\<close>

definition publish :: "render_env \<Rightarrow> jsval \<Rightarrow> string \<Rightarrow> response outcome" where
  "publish env listing outputFileName =
     (let storagePath = ''video-reels/'' @ outputFileName in
      and_then (external (ReadFile (outputPath outputFileName)) (read_result env)) (\<lambda>videoBuffer.
      and_then (external (Upload storagePath) (Inr (upload_error env))) (\<lambda>uploadError.
      and_then (if truthy uploadError
                then and_then (internal (template (js_get uploadError ''message'')))
                       (\<lambda>reason. throws (Error (''Upload failed: '' @ reason)))
                else returns ()) (\<lambda>uploaded.
      and_then (external (GetPublicUrl storagePath) (Inr (public_url env))) (\<lambda>publicUrl.
      and_then (external (UpdateListing (JObj [(''video_url'', JStr publicUrl)]) (js_get listing ''id''))
                  (Inr (update_error env))) (\<lambda>updateError.
      and_then (external (Unlink (outputPath outputFileName)) (unlink_result env)) (\<lambda>deleted.
        returns
          \<lparr>status = 200,
           json = JObj [
             (''success'', JBool True),
             (''videoUrl'', JStr publicUrl),
             (''listingId'', js_get listing ''id''),
             (''renderTime'', JStr (totalTime env)),
             (''message'', JStr ''Video rendered and uploaded successfully'')]\<rparr>)))))))"

text \<open>The body of the \<open>try\<close> of \<open>handler\<close>.\<close>

definition handler_try :: "render_env \<Rightarrow> response outcome" where
  "handler_try env =
     and_then (resolve_listing env) (\<lambda>resolved.
       case resolved of
         Inl res \<Rightarrow> returns res
       | Inr listing \<Rightarrow>
           and_then (prepare env listing) (\<lambda>props.
           and_then (render env listing props) (\<lambda>outputFileName.
             publish env listing outputFileName)))"

text \<open>The \<open>catch\<close> of \<open>handler\<close>.\<close>

definition handler_catch :: "render_env \<Rightarrow> js_error \<Rightarrow> response" where
  "handler_catch env error =
     \<lparr>status = 500,
      json = JObj [
        (''success'', JBool False),
        (''error'', JStr (message error)),
        (''stack'', if node_env env = JStr ''development'' then JStr (error_stack env) else JUndefined),
        (''renderTime'', JStr (totalTime env))]\<rparr>"

definition handler :: "render_env \<Rightarrow> response \<times> effect list" where
  "handler env =
     (if req_method env \<noteq> JStr ''POST''
      then (\<lparr>status = 405, json = JObj [(''error'', JStr ''Method not allowed'')]\<rparr>, [])
      else
        case handler_try env of
          (Inr res, calls) \<Rightarrow> (res, calls)
        | (Inl error, calls) \<Rightarrow> (handler_catch env error, calls))"

section \<open>The specification's rules\<close>

text \<open>
  The truncation rule in the specification's words: text over the budget is cut to the
  budget less three characters, and an ellipsis marker is appended.
\<close>

definition truncate_with_ellipsis :: "nat \<Rightarrow> string \<Rightarrow> string" where
  "truncate_with_ellipsis budget s = (if budget < length s then take (budget - 3) s @ ''...'' else s)"

text \<open>
  The quote rule in the specification's words: a single pair of leading and trailing
  quote characters is stripped if the service wrapped its answer in them.
\<close>

definition strip_wrapping_pair :: "string \<Rightarrow> string" where
  "strip_wrapping_pair s =
     (if 2 \<le> length s \<and> is_quote (hd s) \<and> is_quote (last s) then butlast (tl s) else s)"

definition punchy_spec :: "string \<Rightarrow> string" where
  "punchy_spec text = truncate_with_ellipsis 80 (strip_wrapping_pair (trim text))"

text \<open>The ending of a template of the fallback description, for a condition whose
  conversion to a string is \<open>shown\<close>.\<close>

definition condition_ending :: "jsval \<Rightarrow> string \<Rightarrow> string \<Rightarrow> string" where
  "condition_ending condition shown dflt = (if truthy condition then shown @ '' condition.'' else dflt)"

section \<open>Observations\<close>

text \<open>A field of an object that was built without an error.\<close>

definition field_of :: "js_error + jsval \<Rightarrow> string \<Rightarrow> js_error + jsval" where
  "field_of built k = on_value built (\<lambda>v. Inr (js_get v k))"

fun is_unlink :: "effect \<Rightarrow> bool" where
  "is_unlink (Unlink path) = True"
| "is_unlink c = False"

definition unlink_count :: "effect list \<Rightarrow> nat" where
  "unlink_count calls = length (filter is_unlink calls)"

fun is_read_file :: "effect \<Rightarrow> bool" where
  "is_read_file (ReadFile path) = True"
| "is_read_file c = False"

text \<open>The input properties handed to the rendering engine, and their logo URLs.\<close>

fun composition_props :: "effect list \<Rightarrow> jsval list" where
  "composition_props [] = []"
| "composition_props (SelectComposition props # calls) = props # composition_props calls"
| "composition_props (c # calls) = composition_props calls"

definition logo_urls :: "effect list \<Rightarrow> jsval list" where
  "logo_urls calls = map (\<lambda>props. js_get props ''logoUrl'') (composition_props calls)"

section \<open>Scenarios\<close>

text \<open>No string is compared with a number in the scenarios below; the conversion they
  are given is never asked.\<close>

definition no_conversion :: "string \<Rightarrow> int \<Rightarrow> bool" where
  "no_conversion s n = False"

text \<open>End-to-end scenario 2 of the specification, with the event type as written there.\<close>

definition scenario2 :: webhook_env where
  "scenario2 =
     \<lparr>req_json = Inr (JObj [(''type'', JStr ''insert''), (''table'', JStr ''listings''),
                   (''record'', JObj [(''id'', JStr ''x''), (''title'', JStr ''T''),
                                      (''user_id'', JStr ''u''), (''status'', JStr ''draft'')])]),
      cookies1 = Inr (), client1 = Inr (), profile_query = Inr (JNull, JNull),
      cookies2 = Inr (), client2 = Inr (), app_url = None, date_now = 0,
      string_exceeds = no_conversion\<rparr>"

text \<open>The same event with the type in capitals, as the data store sends it.\<close>

definition inactive_insert :: webhook_env where
  "inactive_insert =
     \<lparr>req_json = Inr (JObj [(''type'', JStr ''INSERT''), (''table'', JStr ''listings''),
                   (''record'', JObj [(''id'', JStr ''x''), (''title'', JStr ''T''),
                                      (''user_id'', JStr ''u''), (''status'', JStr ''draft'')])]),
      cookies1 = Inr (), client1 = Inr (), profile_query = Inr (JNull, JNull),
      cookies2 = Inr (), client2 = Inr (), app_url = None, date_now = 0,
      string_exceeds = no_conversion\<rparr>"

text \<open>An active listing: its profile lookup is rejected; or the cookie store rejects
  the call made inside \<open>generateVideoReel\<close>.\<close>

definition active_insert :: webhook_env where
  "active_insert =
     \<lparr>req_json = Inr (JObj [(''type'', JStr ''INSERT''), (''table'', JStr ''listings''),
                   (''record'', JObj [(''id'', JStr ''x''), (''title'', JStr ''T''),
                                      (''user_id'', JStr ''u''), (''status'', JStr ''active'')])]),
      cookies1 = Inr (), client1 = Inr (), profile_query = Inr (JNull, JNull),
      cookies2 = Inr (), client2 = Inr (), app_url = None, date_now = 0,
      string_exceeds = no_conversion\<rparr>"

definition profile_lookup_rejects :: webhook_env where
  "profile_lookup_rejects =
     active_insert\<lparr>profile_query := Inl (Error ''Missing authorization header'')\<rparr>"

definition reel_cookies_reject :: webhook_env where
  "reel_cookies_reject = active_insert\<lparr>cookies2 := Inl (Error ''Missing request scope'')\<rparr>"

text \<open>The webhook with an application URL configured.\<close>

definition staging_webhook :: webhook_env where
  "staging_webhook = inactive_insert\<lparr>app_url := Some ''https://staging.peermetals.com''\<rparr>"

text \<open>The inline listing of the deployment guide, and a render request that carries it
  and succeeds at every step, with no key for the text-generation service.\<close>

definition inline_listing :: jsval where
  "inline_listing =
     JObj [(''id'', JStr ''test-123''),
           (''title'', JStr ''1oz Gold Eagle''),
           (''description'', JStr ''Beautiful gold coin''),
           (''images'', JArr [JStr ''https://example.com/image1.jpg'']),
           (''user_id'', JStr ''seller-id''),
           (''tier1_category'', JStr ''Gold''),
           (''condition'', JStr ''Mint''),
           (''weight'', JNum 1),
           (''purity'', JStr ''.999''),
           (''year'', JStr ''2024'')]"

definition inline_render :: render_env where
  "inline_render =
     \<lparr>req_method = JStr ''POST'',
      req_body = JObj [(''listingData'', inline_listing)],
      listing_query = (JNull, JNull),
      seller_query = JNull,
      gemini_key = JUndefined,
      text_service = Inl (Error ''API key not valid''),
      bundle_result = Inr (),
      composition_result = Inr (),
      render_result = Inr (),
      read_result = Inr (),
      upload_error = JNull,
      public_url = ''https://storage.example/listings/video-reels/listing-test-123-2000.mp4'',
      update_error = JNull,
      unlink_result = Inr (),
      start_time = 1000,
      file_time = 2000,
      end_time = 46230,
      toFixed2 = (\<lambda>ms. ''45.23''),
      node_env = JStr ''production'',
      error_stack = ''Error'',
      next_public_app_url = JUndefined\<rparr>"

text \<open>The same request when the storage upload fails, when the update of the listing
  record fails, when only an id is sent and the store has no such row, when the method is
  GET, and when an application URL is configured.\<close>

definition upload_fails :: render_env where
  "upload_fails = inline_render\<lparr>upload_error := JObj [(''message'', JStr ''Bucket not found'')]\<rparr>"

definition update_fails :: render_env where
  "update_fails = inline_render\<lparr>update_error := JObj [(''message'', JStr ''permission denied'')]\<rparr>"

definition missing_row :: render_env where
  "missing_row =
     inline_render\<lparr>req_body := JObj [(''listingId'', JStr ''abc'')],
                    listing_query := (JNull, JObj [(''code'', JStr ''PGRST116''),
                       (''message'', JStr ''JSON object requested, multiple (or no) rows returned'')])\<rparr>"

definition get_request :: render_env where
  "get_request = inline_render\<lparr>req_method := JStr ''GET''\<rparr>"

definition staging_render :: render_env where
  "staging_render = inline_render\<lparr>next_public_app_url := JStr ''https://staging.peermetals.com''\<rparr>"

section \<open>Facts about strings and sequences\<close>

lemma starts_with_iff: "starts_with s sub \<longleftrightarrow> (\<exists>q. s = sub @ q)"
  by (induction s sub rule: starts_with.induct) auto

text \<open>
  \<open>str_includes\<close> is the substring relation.
\<close>

lemma str_includes_iff: "str_includes s sub \<longleftrightarrow> (\<exists>p q. s = p @ sub @ q)"
proof (induction s)
  case Nil
  then show ?case by auto
next
  case (Cons c cs)
  show ?case
  proof
    assume "str_includes (c # cs) sub"
    then consider "starts_with (c # cs) sub" | "str_includes cs sub" by auto
    then show "\<exists>p q. c # cs = p @ sub @ q"
    proof cases
      case 1
      then obtain q where "c # cs = sub @ q" by (auto simp: starts_with_iff)
      then have "c # cs = [] @ sub @ q" by simp
      then show ?thesis by blast
    next
      case 2
      then obtain p q where "cs = p @ sub @ q" using Cons.IH by blast
      then have "c # cs = (c # p) @ sub @ q" by simp
      then show ?thesis by blast
    qed
  next
    assume "\<exists>p q. c # cs = p @ sub @ q"
    then obtain p q where pq: "c # cs = p @ sub @ q" by blast
    show "str_includes (c # cs) sub"
    proof (cases p)
      case Nil
      with pq have "starts_with (c # cs) sub" by (auto simp: starts_with_iff)
      then show ?thesis by simp
    next
      case (Cons d p')
      with pq have "cs = p' @ sub @ q" by simp
      then have "str_includes cs sub" using Cons.IH by blast
      then show ?thesis by simp
    qed
  qed
qed

lemma str_includes_mid: "str_includes (p @ sub @ q) sub"
  by (auto simp: str_includes_iff)

lemma not_active_message:
  "str_includes (''Listing status '' @ [CHR 0x27] @ st @ [CHR 0x27]
                 @ '' not active - skipping video generation'') ''not active''"
proof -
  have "''Listing status '' @ [CHR 0x27] @ st @ [CHR 0x27] @ '' not active - skipping video generation''
        = (''Listing status '' @ [CHR 0x27] @ st @ [CHR 0x27] @ '' '')
          @ ''not active'' @ '' - skipping video generation''"
    by simp
  then show ?thesis by (simp only: str_includes_mid)
qed

lemma truncate_with_ellipsis_le: "3 \<le> budget \<Longrightarrow> length (truncate_with_ellipsis budget s) \<le> budget"
  by (auto simp: truncate_with_ellipsis_def)

lemma truncate_with_ellipsis_nonempty: "s \<noteq> [] \<Longrightarrow> truncate_with_ellipsis budget s \<noteq> []"
  by (simp add: truncate_with_ellipsis_def)

text \<open>
  A sequence that ends in a value ran both of its parts, and the calls of a sequence are
  the calls of its parts.
\<close>

lemma and_then_Inr:
  assumes "and_then m f = (Inr y, calls)"
  shows "\<exists>x calls1 calls2. m = (Inr x, calls1) \<and> f x = (Inr y, calls2) \<and> calls = calls1 @ calls2"
  using assms by (auto simp: and_then_def split: prod.splits sum.splits)

lemma and_then_calls:
  assumes "set (snd m) \<subseteq> A" and "\<And>x. set (snd (f x)) \<subseteq> A"
  shows "set (snd (and_then m f)) \<subseteq> A"
proof (cases m)
  case (Pair r calls)
  show ?thesis
  proof (cases r)
    case (Inl e)
    with Pair assms(1) show ?thesis by (simp add: and_then_def)
  next
    case (Inr x)
    obtain r2 calls2 where f: "f x = (r2, calls2)" by (cases "f x")
    with assms(2) [of x] have "set calls2 \<subseteq> A" by simp
    with Pair Inr f assms(1) show ?thesis by (simp add: and_then_def)
  qed
qed

section \<open>The webhook: skipped events\<close>

text \<open>
  Claim C1, as the code has it. A webhook POST whose body has type \<open>INSERT\<close> (in
  capitals), table \<open>listings\<close> and a record whose status is anything but \<open>active\<close>
  and converts to a string (a string, a number, a boolean, \<open>null\<close>, an absent status,
  an object or array without a property \<open>toString\<close> of its own inside) is answered
  with status 200, \<open>success: true\<close>, the message \<open>Webhook skipped\<close> and the reason
  \<open>Listing status '<status>' not active - skipping video generation\<close>, which contains
  \<open>not active\<close>; no call to the cookie store or the data store is made. The status is
  checked before id, title and user id, so these need not be present.
\<close>

theorem POST_skips_inactive:
  assumes "req_json env = Inr payload"
    and "js_get payload ''type'' = JStr ''INSERT''"
    and "js_get payload ''table'' = JStr ''listings''"
    and "truthy (js_get payload ''record'')"
    and "js_get (js_get payload ''record'') ''status'' = st"
    and "st \<noteq> JStr ''active''"
    and "to_string st = Some shown"
  shows "POST env =
           (\<lparr>status = 200,
             json = JObj [(''success'', JBool True),
                          (''message'', JStr ''Webhook skipped''),
                          (''reason'', JStr (''Listing status '' @ [CHR 0x27] @ shown @ [CHR 0x27]
                                            @ '' not active - skipping video generation''))]\<rparr>,
            [])
         \<and> str_includes (''Listing status '' @ [CHR 0x27] @ shown @ [CHR 0x27]
                          @ '' not active - skipping video generation'') ''not active''"
proof -
  let ?msg = "''Listing status '' @ [CHR 0x27] @ shown @ [CHR 0x27]
              @ '' not active - skipping video generation''"
  have nn: "\<not> nullish payload" using assms(2) by (cases payload) auto
  have v: "validateWebhookPayload payload = Inl (Error ?msg)"
    using assms nn by (simp add: validateWebhookPayload_def Let_def on_value_def template_def)
  have inc: "str_includes ?msg ''not active''" by (rule not_active_message)
  have c: "POST_catch (Error ?msg) =
             \<lparr>status = 200,
              json = JObj [(''success'', JBool True),
                           (''message'', JStr ''Webhook skipped''),
                           (''reason'', JStr ?msg)]\<rparr>"
    unfolding POST_catch_def using inc by (simp del: str_includes.simps)
  have "POST_prepare env = (Inl (Error ?msg), [])"
    using assms(1) v by (simp add: POST_prepare_def and_then_def internal_def)
  then have "POST env = (POST_catch (Error ?msg), [])"
    by (simp add: POST_def POST_try_def and_then_def)
  then have p: "POST env =
                  (\<lparr>status = 200,
                    json = JObj [(''success'', JBool True),
                                 (''message'', JStr ''Webhook skipped''),
                                 (''reason'', JStr ?msg)]\<rparr>, [])"
    by (simp only: c)
  show ?thesis by (intro conjI) (rule p, rule inc)
qed

theorem POST_skips_inactive_witness:
  "POST inactive_insert =
     (\<lparr>status = 200,
       json = JObj [(''success'', JBool True),
                    (''message'', JStr ''Webhook skipped''),
                    (''reason'', JStr ''Listing status 'draft' not active - skipping video generation'')]\<rparr>,
      [])
   \<and> str_includes ''Listing status 'draft' not active - skipping video generation'' ''not active''"
proof -
  let ?payload = "JObj [(''type'', JStr ''INSERT''), (''table'', JStr ''listings''),
                        (''record'', JObj [(''id'', JStr ''x''), (''title'', JStr ''T''),
                                           (''user_id'', JStr ''u''), (''status'', JStr ''draft'')])]"
  have h1: "req_json inactive_insert = Inr ?payload" by (simp add: inactive_insert_def)
  have h2: "js_get ?payload ''type'' = JStr ''INSERT''" by simp
  have h3: "js_get ?payload ''table'' = JStr ''listings''" by simp
  have h4: "truthy (js_get ?payload ''record'')" by simp
  have h5: "js_get (js_get ?payload ''record'') ''status'' = JStr ''draft''" by simp
  have h6: "JStr ''draft'' \<noteq> JStr ''active''" by simp
  have h7: "to_string (JStr ''draft'') = Some ''draft''" by simp
  show ?thesis using POST_skips_inactive [OF h1 h2 h3 h4 h5 h6 h7] by simp
qed

text \<open>
  With the type written \<open>insert\<close>, as in the scenario, the event is skipped for its type:
  the reason names the INSERT events and does not contain \<open>not active\<close>.
\<close>

theorem POST_lowercase_insert_counterexample:
  "POST scenario2 =
     (\<lparr>status = 200,
       json = JObj [(''success'', JBool True),
                    (''message'', JStr ''Webhook skipped''),
                    (''reason'', JStr ''Invalid webhook type - only INSERT events are supported'')]\<rparr>,
      [])
   \<and> \<not> str_includes ''Invalid webhook type - only INSERT events are supported'' ''not active''"
  by (simp add: scenario2_def POST_def POST_try_def POST_prepare_def and_then_def internal_def
        validateWebhookPayload_def POST_catch_def)

section \<open>The webhook: status of a failure\<close>

text \<open>
  After lines 147 to 176 have run without an error there is a listing and a seller.
\<close>

lemma POST_prepare_listing:
  assumes "POST_prepare env = (Inr (listing, seller), calls)"
  shows "\<not> nullish listing \<and> \<not> nullish seller"
proof -
  obtain payload where p: "req_json env = Inr payload"
    using assms by (cases "req_json env") (auto simp: POST_prepare_def and_then_def internal_def)
  have v: "validateWebhookPayload payload = Inr True"
    using assms p
    by (cases "validateWebhookPayload payload")
       (auto simp: POST_prepare_def and_then_def internal_def validateWebhookPayload_def
             on_value_def Let_def split: if_splits sum.splits)
  have t: "truthy (js_get payload ''record'')"
    using v by (auto simp: validateWebhookPayload_def on_value_def Let_def split: if_splits sum.splits)
  have l: "listing = js_get payload ''record''"
    using assms p v
    by (auto simp: POST_prepare_def and_then_def internal_def external_def returns_def Let_def
             split: sum.splits prod.splits if_splits)
  have s: "truthy seller"
    using assms p v
    by (auto simp: POST_prepare_def and_then_def internal_def external_def returns_def Let_def
             fallback_profile_def split: sum.splits prod.splits if_splits)
  have "\<And>v. truthy v \<Longrightarrow> \<not> nullish v" by (case_tac v) auto
  with t l s show ?thesis by blast
qed

text \<open>
  A response with status 400 comes from an error of the steps of \<open>POST\<close> itself.
\<close>

lemma POST_client_error_origin:
  assumes "status (fst (POST env)) = 400"
  shows "\<exists>e calls. POST_prepare env = (Inl e, calls) \<and> str_includes (message e) ''Missing''"
proof -
  obtain r calls where p: "POST_prepare env = (r, calls)" by (cases "POST_prepare env")
  show ?thesis
  proof (cases r)
    case (Inl e)
    with p have "fst (POST env) = POST_catch e"
      by (simp add: POST_def POST_try_def and_then_def)
    with assms have "str_includes (message e) ''Missing''"
      by (auto simp: POST_catch_def split: if_splits)
    with p Inl show ?thesis by blast
  next
    case (Inr pair)
    obtain listing seller where pair: "pair = (listing, seller)" by (cases pair)
    with p Inr have nn: "\<not> nullish listing" using POST_prepare_listing by blast
    obtain g calls2 where g: "generateVideoReel_try env listing seller = (g, calls2)"
      by (cases "generateVideoReel_try env listing seller")
    have "status (fst (POST env)) \<noteq> 400"
    proof (cases g)
      case (Inl thrown)
      with g nn have "generateVideoReel env listing seller = (Inr JNull, calls2)"
        by (simp add: generateVideoReel_def)
      with p Inr pair show ?thesis
        by (simp add: POST_def POST_try_def and_then_def throws_def POST_catch_def)
    next
      case (Inr videoResult)
      with g nn have "generateVideoReel env listing seller = (Inr videoResult, calls2)"
        by (simp add: generateVideoReel_def)
      with p \<open>r = Inr pair\<close> pair show ?thesis
        by (simp add: POST_def POST_try_def and_then_def throws_def returns_def POST_catch_def)
    qed
    with assms show ?thesis by simp
  qed
qed

text \<open>
  Claim C9, as the code has it. An error thrown by the steps of \<open>POST\<close> itself (the
  parsing of the request, the validation, the cookie store, the client, the profile
  lookup, the log lines) reaches the \<open>catch\<close> of \<open>POST\<close>: when its message contains
  none of the three skip phrases, the response has status 400 if the message contains
  \<open>Missing\<close> and status 500 otherwise, and carries the message. An error thrown inside
  \<open>generateVideoReel\<close> does not reach that \<open>catch\<close>: it is logged there, the result
  is \<open>null\<close>, and the response has status 500 with the message
  \<open>Failed to generate video reel\<close>, whatever the message of the error was. So a
  response with status 400 always stems from an error of the steps of \<open>POST\<close> itself
  whose message contains \<open>Missing\<close>.
\<close>

theorem POST_failure_status:
  "(POST_prepare env = (Inl e, calls)
      \<and> \<not> str_includes (message e) ''not active''
      \<and> \<not> str_includes (message e) ''only INSERT events''
      \<and> \<not> str_includes (message e) ''only listings table'' \<longrightarrow>
      POST env =
        (\<lparr>status = (if str_includes (message e) ''Missing'' then 400 else 500),
          json = JObj [(''success'', JBool False), (''error'', JStr (message e))]\<rparr>, calls))
   \<and> (POST_prepare env = (Inr (listing, seller), calls)
      \<and> generateVideoReel_try env listing seller = (Inl thrown, calls2) \<longrightarrow>
      POST env =
        (\<lparr>status = 500,
          json = JObj [(''success'', JBool False),
                       (''error'', JStr ''Failed to generate video reel'')]\<rparr>, calls @ calls2))
   \<and> (status (fst (POST env)) = 400 \<longrightarrow>
      (\<exists>own reached. POST_prepare env = (Inl own, reached) \<and> str_includes (message own) ''Missing''))"
proof (intro conjI impI)
  assume "POST_prepare env = (Inl e, calls)
      \<and> \<not> str_includes (message e) ''not active''
      \<and> \<not> str_includes (message e) ''only INSERT events''
      \<and> \<not> str_includes (message e) ''only listings table''"
  then show "POST env =
        (\<lparr>status = (if str_includes (message e) ''Missing'' then 400 else 500),
          json = JObj [(''success'', JBool False), (''error'', JStr (message e))]\<rparr>, calls)"
    by (simp add: POST_def POST_try_def and_then_def POST_catch_def)
next
  assume a: "POST_prepare env = (Inr (listing, seller), calls)
      \<and> generateVideoReel_try env listing seller = (Inl thrown, calls2)"
  then have nn: "\<not> nullish listing" using POST_prepare_listing by blast
  have "generateVideoReel env listing seller = (Inr JNull, calls2)"
    using a nn by (simp add: generateVideoReel_def)
  then have "POST_try env = (Inl (Error ''Failed to generate video reel''), calls @ calls2)"
    using a by (simp add: POST_try_def and_then_def throws_def)
  then show "POST env =
        (\<lparr>status = 500,
          json = JObj [(''success'', JBool False),
                       (''error'', JStr ''Failed to generate video reel'')]\<rparr>, calls @ calls2)"
    by (simp add: POST_def POST_catch_def)
next
  assume "status (fst (POST env)) = 400"
  then show "\<exists>own reached. POST_prepare env = (Inl own, reached) \<and> str_includes (message own) ''Missing''"
    by (rule POST_client_error_origin)
qed

theorem POST_failure_status_witness:
  "status (fst (POST profile_lookup_rejects)) = 400
   \<and> json (fst (POST profile_lookup_rejects))
       = JObj [(''success'', JBool False), (''error'', JStr ''Missing authorization header'')]
   \<and> status (fst (POST reel_cookies_reject)) = 500"
proof -
  let ?listing = "JObj [(''id'', JStr ''x''), (''title'', JStr ''T''),
                        (''user_id'', JStr ''u''), (''status'', JStr ''active'')]"
  have h1: "POST_prepare profile_lookup_rejects =
              (Inl (Error ''Missing authorization header''),
               [CookieStore, CreateClient, SelectProfile (JStr ''u'')])"
    by (simp add: profile_lookup_rejects_def active_insert_def POST_prepare_def and_then_def
          internal_def external_def validateWebhookPayload_def)
  have h2: "\<not> str_includes (message (Error ''Missing authorization header'')) ''not active''
            \<and> \<not> str_includes (message (Error ''Missing authorization header'')) ''only INSERT events''
            \<and> \<not> str_includes (message (Error ''Missing authorization header'')) ''only listings table''"
    by simp
  have g1: "POST_prepare reel_cookies_reject =
              (Inr (?listing, fallback_profile),
               [CookieStore, CreateClient, SelectProfile (JStr ''u'')])"
    by (simp add: reel_cookies_reject_def active_insert_def POST_prepare_def and_then_def
          internal_def external_def returns_def validateWebhookPayload_def template_def
          js_get_opt_def js_or_def fallback_profile_def)
  have g2: "generateVideoReel_try reel_cookies_reject ?listing fallback_profile =
              (Inl (Error ''Missing request scope''), [CookieStore])"
    by (simp add: reel_cookies_reject_def active_insert_def generateVideoReel_try_def and_then_def
          internal_def external_def template_def videoData_def on_value_def fallback_profile_def)
  show ?thesis
    using POST_failure_status [where env = profile_lookup_rejects
            and e = "Error ''Missing authorization header''"
            and calls = "[CookieStore, CreateClient, SelectProfile (JStr ''u'')]"]
          POST_failure_status [where env = reel_cookies_reject
            and listing = ?listing and seller = fallback_profile
            and calls = "[CookieStore, CreateClient, SelectProfile (JStr ''u'')]"
            and thrown = "Error ''Missing request scope''" and ?calls2.0 = "[CookieStore]"]
          h1 h2 g1 g2
    by simp
qed

text \<open>
  The cookie store rejects the call made inside \<open>generateVideoReel\<close> with a message
  that contains \<open>Missing\<close> and none of the skip phrases: the response has status 500.
\<close>

theorem POST_swallowed_error_counterexample:
  "cookies2 reel_cookies_reject = Inl (Error ''Missing request scope'')
   \<and> str_includes ''Missing request scope'' ''Missing''
   \<and> POST reel_cookies_reject =
       (\<lparr>status = 500,
         json = JObj [(''success'', JBool False),
                      (''error'', JStr ''Failed to generate video reel'')]\<rparr>,
        [CookieStore, CreateClient, SelectProfile (JStr ''u''), CookieStore])"
  by (simp add: reel_cookies_reject_def active_insert_def POST_def POST_try_def POST_prepare_def
        POST_catch_def generateVideoReel_def generateVideoReel_try_def videoData_def
        and_then_def internal_def external_def returns_def throws_def on_value_def template_def
        validateWebhookPayload_def js_get_opt_def js_or_def fallback_profile_def)

section \<open>The webhook: the description of a listing\<close>

text \<open>
  The webhook calls the cookie store and the data store only; the text-generation
  service is never among its calls.
\<close>

lemma generateVideoReel_calls:
  "set (snd (generateVideoReel env listing seller)) \<subseteq> {CookieStore, CreateClient} \<union> range SelectProfile"
proof -
  have "set (snd (generateVideoReel_try env listing seller))
          \<subseteq> {CookieStore, CreateClient} \<union> range SelectProfile"
    unfolding generateVideoReel_try_def
    by (intro and_then_calls) (simp_all add: internal_def external_def returns_def Let_def)
  then show ?thesis
    by (cases "generateVideoReel_try env listing seller")
       (auto simp: generateVideoReel_def throws_def split: sum.splits)
qed

lemma POST_prepare_calls:
  "set (snd (POST_prepare env)) \<subseteq> {CookieStore, CreateClient} \<union> range SelectProfile"
  unfolding POST_prepare_def Let_def
  by (intro and_then_calls)
     (auto simp: internal_def external_def returns_def and_then_def split: prod.splits sum.splits)

lemma POST_try_calls:
  "set (snd (POST_try env)) \<subseteq> {CookieStore, CreateClient} \<union> range SelectProfile"
  unfolding POST_try_def
proof (intro and_then_calls)
  show "set (snd (POST_prepare env)) \<subseteq> {CookieStore, CreateClient} \<union> range SelectProfile"
    by (rule POST_prepare_calls)
next
  fix x :: "jsval \<times> jsval"
  obtain listing seller where x: "x = (listing, seller)" by (cases x)
  show "set (snd (case x of (listing, seller) \<Rightarrow>
           and_then (generateVideoReel env listing seller) (\<lambda>videoResult.
             if \<not> truthy videoResult then throws (Error ''Failed to generate video reel'')
             else returns
               \<lparr>status = 200,
                json = JObj [
                  (''success'', JBool True),
                  (''message'', JStr ''Video reel generation queued successfully''),
                  (''listingId'', js_get listing ''id''),
                  (''videoPath'', js_get videoResult ''videoPath''),
                  (''videoData'', js_get videoResult ''videoData'')]\<rparr>)))
        \<subseteq> {CookieStore, CreateClient} \<union> range SelectProfile"
    unfolding x prod.case
    by (intro and_then_calls generateVideoReel_calls) (simp add: throws_def returns_def)
qed

lemma POST_never_generates: "GenerateContent prompt \<notin> set (snd (POST env))"
proof -
  have "snd (POST env) = snd (POST_try env)"
    by (simp add: POST_def split: prod.splits sum.splits)
  then show ?thesis using POST_try_calls [of env] by auto
qed

text \<open>
  Whatever the listing is, the result is one of three texts; an error inside the
  function ends in the first of them.
\<close>

lemma generateListingDescription_forms:
  "generateListingDescription exceeds listing = ''Premium precious metal item available now.''
   \<or> (\<exists>category. to_string (js_or (js_get listing ''tier1_category'') (JStr ''precious metal''))
                     = Some category
        \<and> generateListingDescription exceeds listing =
             ''Discover this exquisite '' @ category @ '' item. Quality guaranteed.'')
   \<or> (\<exists>t. js_get listing ''description'' = JStr t \<and> 10 < length t
        \<and> generateListingDescription exceeds listing = truncate_with_ellipsis 150 (strip_tags t))"
  by (auto simp: generateListingDescription_def generateListingDescription_try_def Let_def
        on_value_def template_def truncate_with_ellipsis_def
        split: jsval.splits option.splits bool.splits)

text \<open>
  Claim C10, as the code has it. The description builder of the webhook is a function of
  the listing alone, and no call of the webhook goes to the text-generation service. For
  a listing whose description is a string of more than 10 characters it returns the
  description with its markup removed, cut to 150 characters by the ellipsis rule (147
  characters and the marker when longer). For a listing whose description is absent,
  empty or a string of at most 10 characters, and whose category converts to a string,
  it returns the sentence \<open>Discover this exquisite <category> item. Quality guaranteed.\<close>,
  with \<open>precious metal\<close> for a missing category: a non-empty text of 50 characters
  plus the length of the category, which no truncation bounds. It never throws: whatever
  the listing is, the result is one of these two texts or the fixed sentence of its
  \<open>catch\<close>.
\<close>

theorem generateListingDescription_cases:
  "(\<not> nullish listing \<and> js_get listing ''description'' = JStr s \<and> 10 < length s \<longrightarrow>
      generateListingDescription exceeds listing = truncate_with_ellipsis 150 (strip_tags s)
      \<and> length (generateListingDescription exceeds listing) \<le> 150)
   \<and> (\<not> nullish listing
        \<and> (\<not> truthy (js_get listing ''description'')
            \<or> (js_get listing ''description'' = JStr s \<and> length s \<le> 10))
        \<and> to_string (js_or (js_get listing ''tier1_category'') (JStr ''precious metal'')) = Some category
      \<longrightarrow>
      generateListingDescription exceeds listing =
        ''Discover this exquisite '' @ category @ '' item. Quality guaranteed.''
      \<and> generateListingDescription exceeds listing \<noteq> []
      \<and> length (generateListingDescription exceeds listing) = 50 + length category)
   \<and> (generateListingDescription exceeds listing = ''Premium precious metal item available now.''
        \<or> (\<exists>shown. to_string (js_or (js_get listing ''tier1_category'') (JStr ''precious metal''))
                      = Some shown
             \<and> generateListingDescription exceeds listing =
                  ''Discover this exquisite '' @ shown @ '' item. Quality guaranteed.'')
        \<or> (\<exists>t. js_get listing ''description'' = JStr t \<and> 10 < length t
             \<and> generateListingDescription exceeds listing = truncate_with_ellipsis 150 (strip_tags t)))
   \<and> GenerateContent prompt \<notin> set (snd (POST env))"
proof -
  have a: "\<not> nullish listing \<and> js_get listing ''description'' = JStr s \<and> 10 < length s \<longrightarrow>
      generateListingDescription exceeds listing = truncate_with_ellipsis 150 (strip_tags s)
      \<and> length (generateListingDescription exceeds listing) \<le> 150"
    by (auto simp: generateListingDescription_def generateListingDescription_try_def Let_def
          truncate_with_ellipsis_def)
  have b: "\<not> nullish listing
        \<and> (\<not> truthy (js_get listing ''description'')
            \<or> (js_get listing ''description'' = JStr s \<and> length s \<le> 10))
        \<and> to_string (js_or (js_get listing ''tier1_category'') (JStr ''precious metal'')) = Some category
      \<longrightarrow>
      generateListingDescription exceeds listing =
        ''Discover this exquisite '' @ category @ '' item. Quality guaranteed.''
      \<and> generateListingDescription exceeds listing \<noteq> []
      \<and> length (generateListingDescription exceeds listing) = 50 + length category"
    by (auto simp: generateListingDescription_def generateListingDescription_try_def Let_def
          on_value_def template_def)
  show ?thesis
    using a b generateListingDescription_forms [of exceeds listing] POST_never_generates [of prompt env]
    by blast
qed

theorem generateListingDescription_witness:
  "generateListingDescription no_conversion (JObj [(''description'', JStr ''<b>Fine</b> silver round'')])
     = ''Fine silver round''
   \<and> generateListingDescription no_conversion (JObj [(''description'', JStr ''As shown'')])
     = ''Discover this exquisite precious metal item. Quality guaranteed.''"
  using generateListingDescription_cases
          [where listing = "JObj [(''description'', JStr ''<b>Fine</b> silver round'')]"
             and s = "''<b>Fine</b> silver round''" and exceeds = no_conversion]
        generateListingDescription_cases
          [where listing = "JObj [(''description'', JStr ''As shown'')]"
             and s = "''As shown''" and category = "''precious metal''" and exceeds = no_conversion]
  by (simp add: js_or_def truncate_with_ellipsis_def)

text \<open>
  A description that is markup only gives the empty text, and a category of 101
  characters gives a fallback sentence of 151 characters.
\<close>

theorem generateListingDescription_counterexample:
  "generateListingDescription no_conversion (JObj [(''description'', JStr ''<p><br/></p>'')]) = []
   \<and> length (generateListingDescription no_conversion
               (JObj [(''tier1_category'', JStr (replicate 101 CHR ''A''))])) = 151"
  by (simp add: generateListingDescription_def generateListingDescription_try_def js_or_def
        on_value_def template_def)

section \<open>The fallback description\<close>

lemma truthy_or_empty: "truthy (js_or v (JStr [])) = truthy v"
  by (simp add: js_or_def)

lemma or_empty_truthy: "truthy v \<Longrightarrow> js_or v (JStr []) = v"
  by (simp add: js_or_def)

lemma condition_sentence_or:
  "to_string v = Some shown \<Longrightarrow>
   condition_sentence (js_or v (JStr [])) dflt = Inr (condition_ending v shown dflt)"
  by (simp add: condition_sentence_def condition_ending_def js_or_def on_value_def template_def)

lemma generateFallbackDescription_eq:
  assumes "\<not> nullish listing"
    and "js_or (js_get_opt (js_get listing ''specifications'') ''category'') (JStr ''precious metal'') = JStr c"
    and "purity = js_get_opt (js_get listing ''specifications'') ''purity''"
    and "year = js_get_opt (js_get listing ''specifications'') ''year''"
    and "condition = js_get_opt (js_get listing ''specifications'') ''condition''"
    and "to_string purity = Some p"
    and "to_string year = Some y"
    and "to_string condition = Some shown"
  shows "generateFallbackDescription listing =
     Inr (truncate_with_ellipsis 120
       (if truthy purity \<and> truthy year then
          p @ '' purity '' @ toLowerCase c @ '' from '' @ y
          @ ''. '' @ condition_ending condition shown ''Exceptional quality.''
        else if truthy purity then
          ''Premium '' @ p @ '' purity '' @ toLowerCase c
          @ ''. '' @ condition_ending condition shown ''Investment grade.''
        else if truthy year then
          ''Collectible '' @ toLowerCase c @ '' from '' @ y
          @ ''. '' @ condition_ending condition shown ''Excellent specimen.''
        else
          ''Beautiful '' @ toLowerCase c @ '' piece. ''
          @ condition_ending condition shown ''Quality guaranteed.''))"
proof -
  have cs: "\<And>dflt. condition_sentence (js_or condition (JStr [])) dflt
              = Inr (condition_ending condition shown dflt)"
    using assms(8) by (rule condition_sentence_or)
  have tp: "truthy purity \<Longrightarrow> template (js_or purity (JStr [])) = Inr p"
    using assms(6) by (simp add: or_empty_truthy template_def)
  have ty: "truthy year \<Longrightarrow> template (js_or year (JStr [])) = Inr y"
    using assms(7) by (simp add: or_empty_truthy template_def)
  have lc: "lower_category (JStr c) = Inr (toLowerCase c)" by (simp add: lower_category_def)
  show ?thesis
    using assms(1) tp ty
    by (simp add: generateFallbackDescription_def Let_def assms(2) assms(3)[symmetric]
          assms(4)[symmetric] assms(5)[symmetric] truthy_or_empty cs lc on_value_def
          truncate_with_ellipsis_def)
qed

text \<open>
  Claim C2, as the code has it. For a listing whose category is absent or a string and
  whose purity, year and condition convert to strings, the fallback generator picks its
  template in the order purity and year, purity only, year only, neither, a field
  counting as present when it is populated (truthy). The text is the template of the
  branch, cut to 120 characters by the ellipsis rule (117 characters and the marker when
  longer); it is never empty and never longer than 120 characters. With no
  specification field populated it is the text of the last branch.
\<close>

theorem generateFallbackDescription_templates:
  assumes "\<not> nullish listing"
    and "js_or (js_get_opt (js_get listing ''specifications'') ''category'') (JStr ''precious metal'') = JStr c"
    and "purity = js_get_opt (js_get listing ''specifications'') ''purity''"
    and "year = js_get_opt (js_get listing ''specifications'') ''year''"
    and "condition = js_get_opt (js_get listing ''specifications'') ''condition''"
    and "to_string purity = Some p"
    and "to_string year = Some y"
    and "to_string condition = Some shown"
  shows "(truthy purity \<and> truthy year \<longrightarrow>
            generateFallbackDescription listing =
              Inr (truncate_with_ellipsis 120
                (p @ '' purity '' @ toLowerCase c @ '' from '' @ y
                 @ ''. '' @ condition_ending condition shown ''Exceptional quality.'')))
       \<and> (truthy purity \<and> \<not> truthy year \<longrightarrow>
            generateFallbackDescription listing =
              Inr (truncate_with_ellipsis 120
                (''Premium '' @ p @ '' purity '' @ toLowerCase c
                 @ ''. '' @ condition_ending condition shown ''Investment grade.'')))
       \<and> (\<not> truthy purity \<and> truthy year \<longrightarrow>
            generateFallbackDescription listing =
              Inr (truncate_with_ellipsis 120
                (''Collectible '' @ toLowerCase c @ '' from '' @ y
                 @ ''. '' @ condition_ending condition shown ''Excellent specimen.'')))
       \<and> (\<not> truthy purity \<and> \<not> truthy year \<longrightarrow>
            generateFallbackDescription listing =
              Inr (truncate_with_ellipsis 120
                (''Beautiful '' @ toLowerCase c @ '' piece. ''
                 @ condition_ending condition shown ''Quality guaranteed.'')))
       \<and> (\<exists>text. generateFallbackDescription listing = Inr text \<and> text \<noteq> [] \<and> length text \<le> 120)"
proof -
  note eq = generateFallbackDescription_eq [OF assms]
  have b1: "truthy purity \<and> truthy year \<longrightarrow>
            generateFallbackDescription listing =
              Inr (truncate_with_ellipsis 120
                (p @ '' purity '' @ toLowerCase c @ '' from '' @ y
                 @ ''. '' @ condition_ending condition shown ''Exceptional quality.''))"
    using eq by simp
  have b2: "truthy purity \<and> \<not> truthy year \<longrightarrow>
            generateFallbackDescription listing =
              Inr (truncate_with_ellipsis 120
                (''Premium '' @ p @ '' purity '' @ toLowerCase c
                 @ ''. '' @ condition_ending condition shown ''Investment grade.''))"
    using eq by simp
  have b3: "\<not> truthy purity \<and> truthy year \<longrightarrow>
            generateFallbackDescription listing =
              Inr (truncate_with_ellipsis 120
                (''Collectible '' @ toLowerCase c @ '' from '' @ y
                 @ ''. '' @ condition_ending condition shown ''Excellent specimen.''))"
    using eq by simp
  have b4: "\<not> truthy purity \<and> \<not> truthy year \<longrightarrow>
            generateFallbackDescription listing =
              Inr (truncate_with_ellipsis 120
                (''Beautiful '' @ toLowerCase c @ '' piece. ''
                 @ condition_ending condition shown ''Quality guaranteed.''))"
    using eq by simp
  have "\<exists>t. generateFallbackDescription listing = Inr (truncate_with_ellipsis 120 t) \<and> t \<noteq> []"
    using b1 b2 b3 b4 by (cases "truthy purity"; cases "truthy year") auto
  then obtain t where t: "generateFallbackDescription listing = Inr (truncate_with_ellipsis 120 t)" "t \<noteq> []"
    by blast
  have b5: "\<exists>text. generateFallbackDescription listing = Inr text \<and> text \<noteq> [] \<and> length text \<le> 120"
    using t truncate_with_ellipsis_le [of 120 t] truncate_with_ellipsis_nonempty [of t 120] by simp
  show ?thesis using b1 b2 b3 b4 b5 by blast
qed

theorem generateFallbackDescription_templates_witness:
  "generateFallbackDescription
     (JObj [(''title'', JStr ''Eagle''),
            (''specifications'', JObj [(''category'', JStr ''Gold''), (''purity'', JStr ''.999''),
                                       (''year'', JNum 2024)])])
     = Inr ''.999 purity gold from 2024. Exceptional quality.''
   \<and> generateFallbackDescription (JObj [(''title'', JStr ''Eagle'')])
     = Inr ''Beautiful precious metal piece. Quality guaranteed.''"
proof -
  let ?l1 = "JObj [(''title'', JStr ''Eagle''),
            (''specifications'', JObj [(''category'', JStr ''Gold''), (''purity'', JStr ''.999''),
                                       (''year'', JNum 2024)])]"
  let ?l2 = "JObj [(''title'', JStr ''Eagle'')]"
  have a1: "\<not> nullish ?l1" by simp
  have a2: "js_or (js_get_opt (js_get ?l1 ''specifications'') ''category'') (JStr ''precious metal'')
              = JStr ''Gold''"
    by (simp add: js_or_def js_get_opt_def)
  have a3: "JStr ''.999'' = js_get_opt (js_get ?l1 ''specifications'') ''purity''"
    by (simp add: js_get_opt_def)
  have a4: "JNum 2024 = js_get_opt (js_get ?l1 ''specifications'') ''year''"
    by (simp add: js_get_opt_def)
  have a5: "JUndefined = js_get_opt (js_get ?l1 ''specifications'') ''condition''"
    by (simp add: js_get_opt_def)
  have a6: "to_string (JStr ''.999'') = Some ''.999''" by simp
  have a7: "to_string (JNum 2024) = Some ''2024''"
    by (simp add: show_int_def show_nat.simps digit_char_def)
  have a8: "to_string JUndefined = Some ''undefined''" by simp
  have b1: "\<not> nullish ?l2" by simp
  have b2: "js_or (js_get_opt (js_get ?l2 ''specifications'') ''category'') (JStr ''precious metal'')
              = JStr ''precious metal''"
    by (simp add: js_or_def js_get_opt_def)
  have b3: "JUndefined = js_get_opt (js_get ?l2 ''specifications'') ''purity''"
    by (simp add: js_get_opt_def)
  have b4: "JUndefined = js_get_opt (js_get ?l2 ''specifications'') ''year''"
    by (simp add: js_get_opt_def)
  have b5: "JUndefined = js_get_opt (js_get ?l2 ''specifications'') ''condition''"
    by (simp add: js_get_opt_def)
  have t: "toLowerCase ''Gold'' = ''gold'' \<and> toLowerCase ''precious metal'' = ''precious metal''"
    by (simp add: toLowerCase_def lower_char_def capitals_def small_letters_def)
  show ?thesis
    using generateFallbackDescription_templates [OF a1 a2 a3 a4 a5 a6 a7 a8]
          generateFallbackDescription_templates [OF b1 b2 b3 b4 b5 a8 a8 a8]
    by (simp add: truncate_with_ellipsis_def condition_ending_def t)
qed

text \<open>
  A listing with purity and year whose category is the number 5: the category has no
  method \<open>toLowerCase\<close>, and the function throws instead of returning a text.
\<close>

theorem generateFallbackDescription_numeric_category_counterexample:
  "generateFallbackDescription
     (JObj [(''title'', JStr ''Eagle''),
            (''specifications'', JObj [(''category'', JNum 5), (''purity'', JStr ''.999''),
                                       (''year'', JStr ''2024'')])])
     = Inl (TypeError ''category.toLowerCase is not a function'')"
  by (simp add: generateFallbackDescription_def js_or_def js_get_opt_def on_value_def template_def
        lower_category_def)

section \<open>The punchy description\<close>

text \<open>
  When the service is asked and answers, the punchy description is the answer trimmed,
  stripped of quotes by the regular expression and cut to 80 characters by the ellipsis
  rule. On an answer that is wrapped in a pair of quotes, and on an answer with a quote
  at neither end, the regular expression does what the rule of the specification says.
\<close>

lemma strip_quotes_wrapped_or_bare:
  assumes "(2 \<le> length t \<and> is_quote (hd t) \<and> is_quote (last t))
           \<or> (t \<noteq> [] \<and> \<not> is_quote (hd t) \<and> \<not> is_quote (last t)) \<or> t = []"
  shows "strip_quotes t = strip_wrapping_pair t"
proof (cases t)
  case Nil
  then show ?thesis by (simp add: strip_quotes_def strip_wrapping_pair_def)
next
  case (Cons c cs)
  show ?thesis
  proof (cases "is_quote c")
    case True
    with Cons assms have ne: "cs \<noteq> []" by auto
    with Cons True assms have "is_quote (last cs)" by auto
    moreover from ne have "Suc 0 \<le> length cs" by (cases cs) auto
    ultimately show ?thesis using ne Cons True by (simp add: strip_quotes_def strip_wrapping_pair_def)
  next
    case False
    with Cons assms have "\<not> is_quote (last (c # cs))" by auto
    with Cons False show ?thesis by (simp add: strip_quotes_def strip_wrapping_pair_def)
  qed
qed

lemma generateDetailedDescription_service_text:
  assumes "truthy key"
    and "\<not> nullish listing"
    and "\<not> truthy (js_get listing ''description'') \<or> (\<exists>s. js_get listing ''description'' = JStr s)"
    and "to_string (js_get listing ''title'') \<noteq> None"
    and "to_string (js_or (js_get_opt (js_get listing ''specifications'') ''category'')
                          (JStr ''Precious Metal'')) \<noteq> None"
    and "service = Inr text"
  shows "fst (generateDetailedDescription key service listing)
           = Inr (truncate_with_ellipsis 80 (strip_quotes (trim text)))
         \<and> length (truncate_with_ellipsis 80 (strip_quotes (trim text))) \<le> 80"
proof -
  have "\<exists>p. plain_description listing = Inr p"
    using assms(3) by (cases "js_get listing ''description''") (auto simp: plain_description_def)
  then obtain p where p: "plain_description listing = Inr p" by blast
  have "\<exists>c. detailed_context listing p = Inr c"
    using assms(4,5) by (auto simp: detailed_context_def on_value_def template_def)
  then obtain c where c: "detailed_context listing p = Inr c" by blast
  have "fst (generateDetailedDescription_try key service listing)
           = Inr (truncate_with_ellipsis 80 (strip_quotes (trim text)))"
    using assms(1,2,6) p c
    by (simp add: generateDetailedDescription_try_def and_then_def internal_def external_def
          returns_def Let_def truncate_with_ellipsis_def)
  then have "fst (generateDetailedDescription key service listing)
           = Inr (truncate_with_ellipsis 80 (strip_quotes (trim text)))"
    by (cases "generateDetailedDescription_try key service listing")
       (auto simp: generateDetailedDescription_def split: sum.splits)
  then show ?thesis using truncate_with_ellipsis_le [of 80] by simp
qed

text \<open>
  Claim C5 asks that quote characters be stripped only when the service wrapped its
  answer in them. The service answers with a sentence that ends in a quoted name and is
  not wrapped in quotes: the code removes the closing quote character, where the rule
  of the specification keeps the answer as it is.
\<close>

theorem generateDetailedDescription_strips_unpaired_quote:
  "fst (generateDetailedDescription (JStr ''key'')
          (Inr (''Own the legendary '' @ [CHR 0x22] @ ''Morgan'' @ [CHR 0x22]))
          (JObj [(''title'', JStr ''Morgan Dollar'')]))
     = Inr (''Own the legendary '' @ [CHR 0x22] @ ''Morgan'')
   \<and> punchy_spec (''Own the legendary '' @ [CHR 0x22] @ ''Morgan'' @ [CHR 0x22])
     = ''Own the legendary '' @ [CHR 0x22] @ ''Morgan'' @ [CHR 0x22]"
  by (simp add: generateDetailedDescription_def generateDetailedDescription_try_def
        plain_description_def detailed_context_def and_then_def internal_def external_def
        returns_def on_value_def template_def js_or_def js_get_opt_def
        punchy_spec_def strip_wrapping_pair_def truncate_with_ellipsis_def
        strip_quotes_def trim_def is_space_def is_quote_def)

section \<open>The render endpoint: the temporary file\<close>

text \<open>
  Inside the publish step, the file is deleted once when the upload succeeds, whether
  or not the update of the listing record fails, and not at all when the upload fails.
\<close>

lemma publish_deletes_once:
  "read_result env = Inr () \<Longrightarrow> \<not> truthy (upload_error env) \<Longrightarrow>
   unlink_count (snd (publish env listing outputFileName)) = 1"
  by (simp add: publish_def unlink_count_def Let_def and_then_def internal_def external_def
        returns_def throws_def split: sum.splits)

lemma publish_upload_failure_no_unlink:
  "truthy (upload_error env) \<Longrightarrow> unlink_count (snd (publish env listing outputFileName)) = 0"
  by (simp add: publish_def unlink_count_def Let_def and_then_def internal_def external_def
        returns_def throws_def split: sum.splits)

lemma handler_update_failure_deletes_once:
  "status (fst (handler update_fails)) = 200
   \<and> unlink_count (snd (handler update_fails)) = 1"
  by (simp add: update_fails_def inline_render_def inline_listing_def
        handler_def handler_try_def handler_catch_def resolve_listing_def prepare_def
        render_def publish_def videoInputProps_def outputPath_def totalTime_def
        generateDetailedDescription_def generateDetailedDescription_try_def
        generateFallbackDetailed_def lower_category_def js_or_def js_get_opt_def toLowerCase_def
        lower_char_def capitals_def small_letters_def bad_request_def Let_def
        and_then_def internal_def external_def returns_def throws_def on_value_def template_def
        unlink_count_def show_int_def show_nat.simps digit_char_def)

text \<open>
  Claim C3 asks that the deletion of the temporary file be attempted exactly once on
  success and on failure of the publish step. The render request below reaches the
  publish step: the rendered file is read. Its upload fails; the handler answers 500
  with the message of the upload, and no deletion is among its calls.
\<close>

theorem handler_upload_failure_keeps_file:
  "status (fst (handler upload_fails)) = 500
   \<and> js_get (json (fst (handler upload_fails))) ''error'' = JStr ''Upload failed: Bucket not found''
   \<and> filter is_read_file (snd (handler upload_fails)) = [ReadFile ''/tmp/listing-test-123-2000.mp4'']
   \<and> unlink_count (snd (handler upload_fails)) = 0"
  by (simp add: upload_fails_def inline_render_def inline_listing_def
        handler_def handler_try_def handler_catch_def resolve_listing_def prepare_def
        render_def publish_def videoInputProps_def outputPath_def totalTime_def
        generateDetailedDescription_def generateDetailedDescription_try_def
        generateFallbackDetailed_def lower_category_def js_or_def js_get_opt_def toLowerCase_def
        lower_char_def capitals_def small_letters_def bad_request_def Let_def
        and_then_def internal_def external_def returns_def throws_def on_value_def template_def
        unlink_count_def show_int_def show_nat.simps digit_char_def)

section \<open>The render endpoint: a listing that is not in the store\<close>

text \<open>
  Claim C4, as the code has it. A POST to the render endpoint that carries a listing id
  that converts to a string (a string or a number, say) and no listing data, for which
  the data store reports an error or no row, is answered with status 500; the error
  message is \<open>Failed to fetch listing: \<close> followed by the message of the store's error
  (the text \<open>undefined\<close> when the store gives no error object). The only call made is
  the lookup of the listing.
\<close>

theorem handler_listing_not_found:
  assumes "req_method env = JStr ''POST''"
    and "truthy (js_get (req_body env) ''listingId'')"
    and "to_string (js_get (req_body env) ''listingId'') = Some shown"
    and "\<not> truthy (js_get (req_body env) ''listingData'')"
    and "listing_query env = (data, err)"
    and "truthy err \<or> \<not> truthy data"
    and "to_string (js_get_opt err ''message'') = Some reason"
  shows "handler env =
           (\<lparr>status = 500,
             json = JObj [
               (''success'', JBool False),
               (''error'', JStr (''Failed to fetch listing: '' @ reason)),
               (''stack'', if node_env env = JStr ''development'' then JStr (error_stack env)
                           else JUndefined),
               (''renderTime'', JStr (totalTime env))]\<rparr>,
            [SelectListing (js_get (req_body env) ''listingId'')])"
proof -
  have nn: "\<not> nullish (req_body env)" using assms(2) by (cases "req_body env") auto
  have "resolve_listing env =
          (Inl (Error (''Failed to fetch listing: '' @ reason)),
           [SelectListing (js_get (req_body env) ''listingId'')])"
    using assms nn
    by (auto simp: resolve_listing_def Let_def and_then_def internal_def external_def throws_def
          template_def)
  then show ?thesis using assms(1)
    by (simp add: handler_def handler_try_def handler_catch_def and_then_def)
qed

theorem handler_listing_not_found_witness:
  "handler missing_row =
     (\<lparr>status = 500,
       json = JObj [
         (''success'', JBool False),
         (''error'', JStr ''Failed to fetch listing: JSON object requested, multiple (or no) rows returned''),
         (''stack'', JUndefined),
         (''renderTime'', JStr ''45.23'')]\<rparr>,
      [SelectListing (JStr ''abc'')])"
proof -
  let ?err = "JObj [(''code'', JStr ''PGRST116''),
                    (''message'', JStr ''JSON object requested, multiple (or no) rows returned'')]"
  have h1: "req_method missing_row = JStr ''POST''"
    by (simp add: missing_row_def inline_render_def)
  have h2: "truthy (js_get (req_body missing_row) ''listingId'')"
    by (simp add: missing_row_def inline_render_def)
  have h3: "to_string (js_get (req_body missing_row) ''listingId'') = Some ''abc''"
    by (simp add: missing_row_def inline_render_def)
  have h4: "\<not> truthy (js_get (req_body missing_row) ''listingData'')"
    by (simp add: missing_row_def inline_render_def)
  have h5: "listing_query missing_row = (JNull, ?err)"
    by (simp add: missing_row_def inline_render_def)
  have h6: "truthy ?err \<or> \<not> truthy JNull" by simp
  have h7: "to_string (js_get_opt ?err ''message'')
              = Some ''JSON object requested, multiple (or no) rows returned''"
    by (simp add: js_get_opt_def)
  show ?thesis
    using handler_listing_not_found [OF h1 h2 h3 h4 h5 h6 h7]
    by (simp add: missing_row_def inline_render_def totalTime_def)
qed

text \<open>
  For the listing id \<open>abc\<close> and the store's message for a lookup that finds no row, the
  error message of the response does not contain the id.
\<close>

theorem handler_missing_row_counterexample:
  "status (fst (handler missing_row)) = 500
   \<and> js_get (json (fst (handler missing_row))) ''error''
       = JStr ''Failed to fetch listing: JSON object requested, multiple (or no) rows returned''
   \<and> \<not> str_includes ''Failed to fetch listing: JSON object requested, multiple (or no) rows returned''
         ''abc''"
  by (simp add: missing_row_def inline_render_def
        handler_def handler_try_def handler_catch_def resolve_listing_def js_get_opt_def Let_def
        and_then_def internal_def external_def throws_def template_def)

section \<open>The input properties: weight and logo\<close>




text \<open>
  The logo URL of the webhook follows the configured application URL; that of the
  render endpoint is fixed.
\<close>

lemma webhook_logo_url:
  assumes "field_of (videoData env listing sellerProfile) ''logoUrl'' = Inr url"
  shows "url = (case app_url env of
                  None \<Rightarrow> JStr ''https://peermetals.com/peermetals.png''
                | Some base \<Rightarrow>
                    if base \<noteq> [] then JStr (base @ ''/peermetals.png'')
                    else JStr ''https://peermetals.com/peermetals.png'')"
  using assms
  by (auto simp: videoData_def field_of_def on_value_def split: sum.splits if_splits option.splits)

lemma render_logo_url:
  assumes "field_of (videoInputProps listing seller text) ''logoUrl'' = Inr url"
  shows "url = JStr ''https://peermetals.com/peermetals.png''"
  using assms
  by (auto simp: videoInputProps_def field_of_def on_value_def split: sum.splits if_splits)

text \<open>
  Claim C7 asks that the logo URL be the configured application URL followed by the logo
  path, for either entry point. With \<open>https://staging.peermetals.com\<close> configured, the
  render endpoint hands the fixed URL \<open>https://peermetals.com/peermetals.png\<close> to the
  rendering engine, while the webhook builds the URL from the configuration.
\<close>

theorem render_logo_ignores_app_url:
  "next_public_app_url staging_render = JStr ''https://staging.peermetals.com''
   \<and> logo_urls (snd (handler staging_render)) = [JStr ''https://peermetals.com/peermetals.png'']
   \<and> field_of (videoData staging_webhook inline_listing fallback_profile) ''logoUrl''
       = Inr (JStr ''https://staging.peermetals.com/peermetals.png'')"
  by (simp add: staging_render_def inline_render_def inline_listing_def
        handler_def handler_try_def handler_catch_def resolve_listing_def prepare_def
        render_def publish_def videoInputProps_def outputPath_def totalTime_def
        generateDetailedDescription_def generateDetailedDescription_try_def
        generateFallbackDetailed_def lower_category_def js_or_def js_get_opt_def toLowerCase_def
        lower_char_def capitals_def small_letters_def bad_request_def Let_def
        and_then_def internal_def external_def returns_def throws_def on_value_def template_def
        logo_urls_def staging_webhook_def inactive_insert_def videoData_def field_of_def
        fallback_profile_def show_int_def show_nat.simps digit_char_def)

section \<open>The render endpoint: failure responses\<close>

lemma publish_ok: "publish env listing outputFileName = (Inr res, calls) \<Longrightarrow> status res = 200"
  by (auto simp: publish_def Let_def returns_def dest!: and_then_Inr)

lemma resolve_listing_early: "resolve_listing env = (Inr (Inl res), calls) \<Longrightarrow> res = bad_request"
  by (auto simp: resolve_listing_def Let_def returns_def throws_def
           split: if_splits prod.splits dest!: and_then_Inr)

lemma handler_try_ok:
  assumes "handler_try env = (Inr res, calls)"
  shows "res = bad_request \<or> status res = 200"
proof -
  from assms obtain resolved calls1 calls2
    where r: "resolve_listing env = (Inr resolved, calls1)"
      and k: "(case resolved of
                 Inl res \<Rightarrow> returns res
               | Inr listing \<Rightarrow>
                   and_then (prepare env listing) (\<lambda>props.
                   and_then (render env listing props) (\<lambda>outputFileName.
                     publish env listing outputFileName))) = (Inr res, calls2)"
    unfolding handler_try_def by (blast dest: and_then_Inr)
  show ?thesis
  proof (cases resolved)
    case (Inl early)
    with k have "res = early" by (simp add: returns_def)
    moreover from Inl r have "early = bad_request" by (auto dest: resolve_listing_early)
    ultimately show ?thesis by simp
  next
    case (Inr listing)
    with k show ?thesis by (auto dest!: and_then_Inr dest: publish_ok)
  qed
qed

text \<open>
  The four kinds of response of the render endpoint.
\<close>

lemma handler_result:
  "fst (handler env) = \<lparr>status = 405, json = JObj [(''error'', JStr ''Method not allowed'')]\<rparr>
   \<or> fst (handler env) = bad_request
   \<or> status (fst (handler env)) = 200
   \<or> (\<exists>e. fst (handler env) = handler_catch env e)"
proof (cases "req_method env = JStr ''POST''")
  case False
  then show ?thesis by (simp add: handler_def)
next
  case True
  obtain r c where rc: "handler_try env = (r, c)" by (cases "handler_try env")
  show ?thesis
  proof (cases r)
    case (Inl e)
    with rc True have "fst (handler env) = handler_catch env e" by (simp add: handler_def)
    then show ?thesis by blast
  next
    case (Inr res)
    with rc True have "fst (handler env) = res" by (simp add: handler_def)
    moreover from Inr rc have "res = bad_request \<or> status res = 200" by (auto dest: handler_try_ok)
    ultimately show ?thesis by auto
  qed
qed

text \<open>
  Claim C8, as the code has it. The render endpoint answers with status 200, 400, 405 or
  500. Every response with status 500 (an error anywhere in the pipeline) carries the
  message of the error and the elapsed time. The responses with status 405 (method not
  allowed) and 400 (neither listing id nor listing data) carry a message and no elapsed
  time.
\<close>

theorem handler_failure_bodies:
  "status (fst (handler env)) \<in> {200, 400, 405, 500}
   \<and> (status (fst (handler env)) = 500 \<longrightarrow>
        (\<exists>text. js_get (json (fst (handler env))) ''error'' = JStr text)
        \<and> js_get (json (fst (handler env))) ''renderTime'' = JStr (totalTime env))
   \<and> (status (fst (handler env)) = 405 \<or> status (fst (handler env)) = 400 \<longrightarrow>
        (\<exists>text. js_get (json (fst (handler env))) ''error'' = JStr text)
        \<and> js_get (json (fst (handler env))) ''renderTime'' = JUndefined)"
  using handler_result [of env]
  by (elim disjE exE) (simp_all add: bad_request_def handler_catch_def)

theorem handler_failure_bodies_witness:
  "status (fst (handler upload_fails)) = 500
   \<and> js_get (json (fst (handler upload_fails))) ''renderTime'' = JStr ''45.23''
   \<and> status (fst (handler get_request)) = 405
   \<and> js_get (json (fst (handler get_request))) ''renderTime'' = JUndefined"
proof -
  have a: "status (fst (handler upload_fails)) = 500"
    by (simp add: upload_fails_def inline_render_def inline_listing_def
        handler_def handler_try_def handler_catch_def resolve_listing_def prepare_def
        render_def publish_def videoInputProps_def outputPath_def totalTime_def
        generateDetailedDescription_def generateDetailedDescription_try_def
        generateFallbackDetailed_def lower_category_def js_or_def js_get_opt_def toLowerCase_def
        lower_char_def capitals_def small_letters_def bad_request_def Let_def
        and_then_def internal_def external_def returns_def throws_def on_value_def template_def
        show_int_def show_nat.simps digit_char_def)
  have b: "status (fst (handler get_request)) = 405"
    by (simp add: get_request_def inline_render_def handler_def)
  have t: "totalTime upload_fails = ''45.23''"
    by (simp add: upload_fails_def inline_render_def totalTime_def)
  show ?thesis
    using a b t handler_failure_bodies [of upload_fails] handler_failure_bodies [of get_request]
    by simp
qed

text \<open>
  A GET request is answered with status 405 and a body that holds the message only.
\<close>

theorem handler_method_not_allowed_counterexample:
  "status (fst (handler get_request)) = 405
   \<and> json (fst (handler get_request)) = JObj [(''error'', JStr ''Method not allowed'')]
   \<and> js_get (json (fst (handler get_request))) ''renderTime'' = JUndefined"
  by (simp add: get_request_def inline_render_def handler_def)

end
